theory Spec2Isabelle
  imports Complex_Main
begin

section \<open>LoRA fine-tuning notebook: the orchestration code of \<open>lora.ipynb\<close>\<close>

text \<open>
  The notebook is a sequence of cells over third-party libraries. The functions it
  defines itself are embedded below, one definition per source function, with the
  source text quoted before each. Calls into the libraries (the model forward pass,
  the image processor, the image conversion) are parameters of the definitions.
  Python exceptions are values of \<open>py_error\<close>.
\<close>

datatype py_error = KeyError | ValueError | IndexError | ZeroDivisionError

subsection \<open>Datasets and label mappings (cell 5)\<close>

text \<open>
  A dataset, as far as the notebook reads it: the class names of its label feature
  (\<^verbatim>\<open>dataset.features["label"].names\<close>) and its records.
\<close>

record 'r dataset =
  features_label_names :: "string list"
  records :: "'r list"

type_synonym label2id = "string \<rightharpoonup> nat"
type_synonym id2label = "nat \<rightharpoonup> string"

text \<open>
  \<^verbatim>\<open>
  def create_label_mappings(dataset):
      label2id, id2label = dict(), dict()
      for i, label in enumerate(dataset.features["label"].names):
          label2id[label] = i
          id2label[i] = label

      return label2id, id2label
  \<close>
  The loop body is \<open>label_step\<close>; the loop runs over the enumerated names, starting
  from two empty dictionaries.
\<close>

definition label_step :: "label2id \<times> id2label \<Rightarrow> nat \<times> string \<Rightarrow> label2id \<times> id2label" where
  "label_step acc p = (case acc of (label2id, id2label) \<Rightarrow>
     (case p of (i, label) \<Rightarrow> (label2id(label \<mapsto> i), id2label(i \<mapsto> label))))"

fun label_loop :: "(nat \<times> string) list \<Rightarrow> label2id \<times> id2label \<Rightarrow> label2id \<times> id2label" where
  "label_loop [] acc = acc"
| "label_loop (p # ps) acc = label_loop ps (label_step acc p)"

definition create_label_mappings :: "'r dataset \<Rightarrow> label2id \<times> id2label" where
  "create_label_mappings dataset =
     label_loop (enumerate 0 (features_label_names dataset)) (Map.empty, Map.empty)"

subsection \<open>Models (cells 3, 5 and 16)\<close>

text \<open>
  A model parameter as \<^verbatim>\<open>model.named_parameters()\<close> lists it: the dotted name of its module
  split at the dots, its own name (\<^verbatim>\<open>weight\<close>, \<^verbatim>\<open>bias\<close>), its shape, whether it is
  trained, and whether it belongs to the pretrained network or is one of the two
  low-rank matrices of an adapter.
\<close>

datatype origin = Backbone | Lora_A | Lora_B

record parameter =
  module_path :: "string list"
  param_name :: string
  shape :: "nat list"
  requires_grad :: bool
  origin :: origin

definition numel :: "parameter \<Rightarrow> nat" where
  "numel p = prod_list (shape p)"

definition module_key :: "parameter \<Rightarrow> string" where
  "module_key p = (case module_path p of [] \<Rightarrow> [] | _ # _ \<Rightarrow> last (module_path p))"

record pretrained_config =
  config_label2id :: label2id
  config_id2label :: id2label

record lora_config =
  r :: nat
  lora_alpha :: nat
  target_modules :: "string list"
  lora_dropout :: rat
  bias :: string
  modules_to_save :: "string list"

text \<open>
  A model: its configuration (\<^verbatim>\<open>model.config\<close>), its parameters, the adapter
  configuration once it is wrapped, and its forward pass, which maps an encoded image
  to the row of logits.
\<close>

record ('enc, 'score) model =
  model_config :: pretrained_config
  named_parameters :: "parameter list"
  peft_config :: "lora_config option"
  forward :: "'enc \<Rightarrow> 'score list"

text \<open>
  What the hub holds under \<^verbatim>\<open>model_checkpoint\<close>: the parameters (name, shape) and the
  forward pass of the pretrained network, with the classification head sized for the
  given labels (\<^verbatim>\<open>ignore_mismatched_sizes=True\<close>).
\<close>

record ('enc, 'score) checkpoint =
  checkpoint_parameters :: "id2label \<Rightarrow> (string list \<times> string \<times> nat list) list"
  checkpoint_forward :: "id2label \<Rightarrow> 'enc \<Rightarrow> 'score list"

definition model_checkpoint :: string where
  "model_checkpoint = ''google/vit-base-patch16-224-in21k''"

text \<open>
  \<^verbatim>\<open>
  def print_trainable_parameters(model, label):
      parameters, trainable = 0, 0

      for _, p in model.named_parameters():
          parameters += p.numel()
          trainable += p.numel() if p.requires_grad else 0

      print(f"{label} trainable parameters: {trainable:,}/{parameters:,} ({100 * trainable / parameters:.2f}%)")
  \<close>
  The printed line is returned as the label and the two counts; the division raises
  when the model has no parameter element.
\<close>

fun count_parameters :: "parameter list \<Rightarrow> nat \<times> nat \<Rightarrow> nat \<times> nat" where
  "count_parameters [] acc = acc"
| "count_parameters (p # ps) acc = (case acc of (parameters, trainable) \<Rightarrow>
     count_parameters ps
       (parameters + numel p, trainable + (if requires_grad p then numel p else 0)))"

definition print_trainable_parameters ::
  "('enc, 'score) model \<Rightarrow> string \<Rightarrow> py_error + string \<times> nat \<times> nat" where
  "print_trainable_parameters model label =
     (case count_parameters (named_parameters model) (0, 0) of (parameters, trainable) \<Rightarrow>
        if parameters = 0 then Inl ZeroDivisionError else Inr (label, trainable, parameters))"

text \<open>
  \<^verbatim>\<open>
  def get_base_model(label2id, id2label):
      return AutoModelForImageClassification.from_pretrained(
          model_checkpoint,
          label2id=label2id,
          id2label=id2label,
          ignore_mismatched_sizes=True,
      )
  \<close>
  The loaded model keeps the two mappings in its configuration; every parameter of a
  freshly loaded model is trainable.
\<close>

definition get_base_model ::
  "('enc, 'score) checkpoint \<Rightarrow> label2id \<Rightarrow> id2label \<Rightarrow> ('enc, 'score) model" where
  "get_base_model pretrained lbl2id id2lbl =
     \<lparr>model_config = \<lparr>config_label2id = lbl2id, config_id2label = id2lbl\<rparr>,
      named_parameters =
        map (\<lambda>(path, name, shp).
               \<lparr>module_path = path, param_name = name, shape = shp,
                requires_grad = True, origin = Backbone\<rparr>)
            (checkpoint_parameters pretrained id2lbl),
      peft_config = None,
      forward = checkpoint_forward pretrained id2lbl\<rparr>"

text \<open>
  Modelled from the spec: \<^verbatim>\<open>get_peft_model\<close> of the adapter library, which the notebook
  calls and does not define. The spec (4.3): it "wraps specified attention weight
  matrices with a low-rank adapter of fixed rank and scaling, freezes all other backbone
  weights, and keeps the classifier head fully trainable". A parameter of a module named
  in \<open>modules_to_save\<close> stays trainable; every other parameter is frozen; a weight matrix
  (shape \<open>[out, in]\<close>) of a module named in \<open>target_modules\<close> is followed by its two
  trainable low-rank matrices, of shapes \<open>[r, in]\<close> and \<open>[out, r]\<close>.
\<close>

definition wrap_parameter :: "lora_config \<Rightarrow> parameter \<Rightarrow> parameter list" where
  "wrap_parameter lcfg p =
     (if module_key p \<in> set (modules_to_save lcfg) then [p\<lparr>requires_grad := True\<rparr>]
      else if module_key p \<in> set (target_modules lcfg) \<and> param_name p = ''weight'' then
        (case shape p of
           [out_features, in_features] \<Rightarrow>
             [p\<lparr>requires_grad := False\<rparr>,
              \<lparr>module_path = module_path p, param_name = ''lora_A'',
               shape = [r lcfg, in_features], requires_grad = True, origin = Lora_A\<rparr>,
              \<lparr>module_path = module_path p, param_name = ''lora_B'',
               shape = [out_features, r lcfg], requires_grad = True, origin = Lora_B\<rparr>]
         | _ \<Rightarrow> [p\<lparr>requires_grad := False\<rparr>])
      else [p\<lparr>requires_grad := False\<rparr>])"

text \<open>
  Modelled from the spec: \<^verbatim>\<open>get_peft_model\<close> wraps every parameter of the model as above
  and records the adapter configuration; the model's own configuration (the label
  mappings) is kept.
\<close>

definition get_peft_model ::
  "('enc, 'score) model \<Rightarrow> lora_config \<Rightarrow> ('enc, 'score) model" where
  "get_peft_model model lcfg =
     model\<lparr>named_parameters := concat (map (wrap_parameter lcfg) (named_parameters model)),
           peft_config := Some lcfg\<rparr>"

text \<open>
  \<^verbatim>\<open>
  def build_lora_model(label2id, id2label):
      model = get_base_model(label2id, id2label)
      print_trainable_parameters(model, label="Base model")

      config = LoraConfig(
          r=16,
          lora_alpha=16,
          target_modules=["query", "value"],
          lora_dropout=0.1,
          bias="none",
          modules_to_save=["classifier"],
      )

      lora_model = get_peft_model(model, config)
      print_trainable_parameters(lora_model, label="LoRA")

      return lora_model
  \<close>
\<close>

definition build_lora_model ::
  "('enc, 'score) checkpoint \<Rightarrow> label2id \<Rightarrow> id2label \<Rightarrow> py_error + ('enc, 'score) model" where
  "build_lora_model pretrained lbl2id id2lbl =
     (let model = get_base_model pretrained lbl2id id2lbl in
      case print_trainable_parameters model ''Base model'' of
        Inl e \<Rightarrow> Inl e
      | Inr _ \<Rightarrow>
          let config = \<lparr>r = 16, lora_alpha = 16, target_modules = [''query'', ''value''],
                        lora_dropout = 1 / 10, bias = ''none'',
                        modules_to_save = [''classifier'']\<rparr>;
              lora_model = get_peft_model model config
          in (case print_trainable_parameters lora_model ''LoRA'' of
                Inl e \<Rightarrow> Inl e
              | Inr _ \<Rightarrow> Inr lora_model))"

text \<open>
  \<^verbatim>\<open>
  def build_inference_model(label2id, id2label, lora_adapter_path):
      model = get_base_model(label2id, id2label)
      return PeftModel.from_pretrained(model, lora_adapter_path)
  \<close>
  \<^verbatim>\<open>PeftModel.from_pretrained\<close> reads the saved adapter from the file system; it is the
  parameter \<open>peft_from_pretrained\<close>.
\<close>

definition build_inference_model ::
  "('enc, 'score) checkpoint \<Rightarrow> (('enc, 'score) model \<Rightarrow> string \<Rightarrow> ('enc, 'score) model) \<Rightarrow>
   label2id \<Rightarrow> id2label \<Rightarrow> string \<Rightarrow> ('enc, 'score) model" where
  "build_inference_model pretrained peft_from_pretrained lbl2id id2lbl lora_adapter_path =
     (let model = get_base_model pretrained lbl2id id2lbl
      in peft_from_pretrained model lora_adapter_path)"

subsection \<open>Argmax, prediction and metrics (cells 14, 16 and 22)\<close>

text \<open>
  \<^verbatim>\<open>argmax\<close> of the tensor libraries: the index of the first greatest entry; it raises
  on an empty row (\<open>None\<close>). Scores are the values of a linear order (floats other
  than NaN).
\<close>

fun argmax_scan :: "'a::linorder list \<Rightarrow> nat \<Rightarrow> nat \<Rightarrow> 'a \<Rightarrow> nat" where
  "argmax_scan [] i best v = best"
| "argmax_scan (x # xs) i best v =
     (if v < x then argmax_scan xs (Suc i) i x else argmax_scan xs (Suc i) best v)"

definition argmax :: "'a::linorder list \<Rightarrow> nat option" where
  "argmax xs = (case xs of [] \<Rightarrow> None | x # rest \<Rightarrow> Some (argmax_scan rest 1 0 x))"

text \<open>
  \<^verbatim>\<open>
  def predict(image, model, image_processor):
      encoding = image_processor(image.convert("RGB"), return_tensors="pt")
      with torch.no_grad():
          outputs = model(**encoding)
          logits = outputs.logits

      class_index = logits.argmax(-1).item()
      return model.config.id2label[class_index]
  \<close>
  \<^verbatim>\<open>image.convert\<close> is the imaging library's; it is the parameter \<open>convert\<close> and may
  raise.
\<close>

definition predict ::
  "('img \<Rightarrow> string \<Rightarrow> py_error + 'img) \<Rightarrow> 'img \<Rightarrow> ('enc, 'score::linorder) model \<Rightarrow>
   ('img \<Rightarrow> 'enc) \<Rightarrow> py_error + string" where
  "predict convert img model image_processor =
     (case convert img ''RGB'' of
        Inl e \<Rightarrow> Inl e
      | Inr rgb \<Rightarrow>
          let encoding = image_processor rgb;
              logits = forward model encoding
          in (case argmax logits of
                None \<Rightarrow> Inl IndexError
              | Some class_index \<Rightarrow>
                  (case config_id2label (model_config model) class_index of
                     None \<Rightarrow> Inl KeyError
                   | Some label \<Rightarrow> Inr label)))"

text \<open>
  \<^verbatim>\<open>
  def preprocess(batch):
      batch["pixel_values"] = [
          preprocess_pipeline(image.convert("RGB")) for image in batch["image"]
      ]
      return batch
  \<close>
\<close>

record ('img, 'px) batch =
  batch_image :: "'img list"
  pixel_values :: "'px list option"

fun pixel_values_of ::
  "('img \<Rightarrow> string \<Rightarrow> py_error + 'img) \<Rightarrow> ('img \<Rightarrow> 'px) \<Rightarrow> 'img list \<Rightarrow> py_error + 'px list" where
  "pixel_values_of convert preprocess_pipeline [] = Inr []"
| "pixel_values_of convert preprocess_pipeline (im # ims) =
     (case convert im ''RGB'' of
        Inl e \<Rightarrow> Inl e
      | Inr rgb \<Rightarrow>
          (case pixel_values_of convert preprocess_pipeline ims of
             Inl e \<Rightarrow> Inl e
           | Inr rest \<Rightarrow> Inr (preprocess_pipeline rgb # rest)))"

definition preprocess ::
  "('img \<Rightarrow> string \<Rightarrow> py_error + 'img) \<Rightarrow> ('img \<Rightarrow> 'px) \<Rightarrow> ('img, 'px) batch \<Rightarrow>
   py_error + ('img, 'px) batch" where
  "preprocess convert preprocess_pipeline b =
     (case pixel_values_of convert preprocess_pipeline (batch_image b) of
        Inl e \<Rightarrow> Inl e
      | Inr pvs \<Rightarrow> Inr (b\<lparr>pixel_values := Some pvs\<rparr>))"

text \<open>
  \<^verbatim>\<open>
  metric = evaluate.load("accuracy")

  def compute_metrics(eval_pred):
      predictions = np.argmax(eval_pred.predictions, axis=1)
      return metric.compute(predictions=predictions, references=eval_pred.label_ids)
  \<close>
\<close>

record 'score eval_prediction =
  predictions :: "'score list list"
  label_ids :: "nat list"

fun argmax_axis1 :: "'a::linorder list list \<Rightarrow> py_error + nat list" where
  "argmax_axis1 [] = Inr []"
| "argmax_axis1 (row # rows) =
     (case argmax row of
        None \<Rightarrow> Inl ValueError
      | Some k \<Rightarrow> (case argmax_axis1 rows of Inl e \<Rightarrow> Inl e | Inr ks \<Rightarrow> Inr (k # ks)))"

text \<open>
  Modelled from the spec: \<^verbatim>\<open>metric.compute\<close> of the accuracy metric, which the notebook
  loads and does not define. The spec: the driver "evaluates accuracy", the fraction of
  examples whose prediction equals the reference label. Predictions and references of
  different lengths are refused, and an empty batch has no accuracy.
\<close>

definition metric_compute :: "nat list \<Rightarrow> nat list \<Rightarrow> py_error + (string \<times> rat) list" where
  "metric_compute preds references =
     (if length preds \<noteq> length references then Inl ValueError
      else if references = [] then Inl ZeroDivisionError
      else Inr [(''accuracy'',
                 of_nat (length (filter (\<lambda>(p, y). p = y) (zip preds references)))
                   / of_nat (length references))])"

definition compute_metrics ::
  "('score::linorder) eval_prediction \<Rightarrow> py_error + (string \<times> rat) list" where
  "compute_metrics eval_pred =
     (case argmax_axis1 (predictions eval_pred) of
        Inl e \<Rightarrow> Inl e
      | Inr preds \<Rightarrow> metric_compute preds (label_ids eval_pred))"

subsection \<open>Task configuration, training arguments and the two loops (cells 10, 18, 20, 24)\<close>

text \<open>
  One entry of the dictionary \<^verbatim>\<open>config\<close>. The keys \<^verbatim>\<open>inference_model\<close> and
  \<^verbatim>\<open>image_processor\<close> are absent (\<open>None\<close>) until cell 24 adds them.
\<close>

record ('enc, 'score, 'r, 'ip) task =
  train_data :: "'r dataset"
  test_data :: "'r dataset"
  label2id :: label2id
  id2label :: id2label
  epochs :: int
  path :: string
  inference_model :: "('enc, 'score) model option"
  image_processor :: "'ip option"

text \<open>
  \<^verbatim>\<open>
  dataset1_label2id, dataset1_id2label = create_label_mappings(dataset1)
  dataset2_label2id, dataset2_id2label = create_label_mappings(dataset2)

  config = {
      "model1": {
          "train_data": dataset1_train,
          "test_data": dataset1_test,
          "label2id": dataset1_label2id,
          "id2label": dataset1_id2label,
          "epochs": 5,
          "path": "./lora-model1"
      },
      "model2": {
          "train_data": dataset2_train,
          "test_data": dataset2_test,
          "label2id": dataset2_label2id,
          "id2label": dataset2_id2label,
          "epochs": 1,
          "path": "./lora-model2"
      },
  }
  \<close>
  The datasets and their splits come from the hub and from the random split; they are
  the arguments.
\<close>

definition config ::
  "'r dataset \<Rightarrow> 'r dataset \<Rightarrow> 'r dataset \<Rightarrow> 'r dataset \<Rightarrow> 'r dataset \<Rightarrow> 'r dataset \<Rightarrow>
   (string \<times> ('enc, 'score, 'r, 'ip) task) list" where
  "config dataset1 dataset1_train dataset1_test dataset2 dataset2_train dataset2_test =
     (case create_label_mappings dataset1 of (dataset1_label2id, dataset1_id2label) \<Rightarrow>
      case create_label_mappings dataset2 of (dataset2_label2id, dataset2_id2label) \<Rightarrow>
        [(''model1'',
          \<lparr>train_data = dataset1_train, test_data = dataset1_test,
           label2id = dataset1_label2id, id2label = dataset1_id2label,
           epochs = 5, path = ''./lora-model1'',
           inference_model = None, image_processor = None\<rparr>),
         (''model2'',
          \<lparr>train_data = dataset2_train, test_data = dataset2_test,
           label2id = dataset2_label2id, id2label = dataset2_id2label,
           epochs = 1, path = ''./lora-model2'',
           inference_model = None, image_processor = None\<rparr>)])"

text \<open>
  \<^verbatim>\<open>
  batch_size = 128
  training_arguments = TrainingArguments(
      output_dir="./model-checkpoints",
      remove_unused_columns=False,
      eval_strategy="epoch",
      save_strategy="epoch",
      learning_rate=5e-3,
      per_device_train_batch_size=batch_size,
      per_device_eval_batch_size=batch_size,
      gradient_accumulation_steps=4,
      fp16=True,
      logging_steps=10,
      load_best_model_at_end=True,
      metric_for_best_model="accuracy",
      label_names=["labels"],
  )
  \<close>
  The fields the notebook sets, and \<^verbatim>\<open>num_train_epochs\<close>, which it assigns later and
  which starts at the library's default, an argument here.
\<close>

record training_args =
  output_dir :: string
  remove_unused_columns :: bool
  eval_strategy :: string
  save_strategy :: string
  learning_rate :: rat
  per_device_train_batch_size :: nat
  per_device_eval_batch_size :: nat
  gradient_accumulation_steps :: nat
  fp16 :: bool
  logging_steps :: nat
  load_best_model_at_end :: bool
  metric_for_best_model :: string
  label_names :: "string list"
  num_train_epochs :: int

definition batch_size :: nat where
  "batch_size = 128"

definition training_arguments :: "int \<Rightarrow> training_args" where
  "training_arguments default_epochs =
     \<lparr>output_dir = ''./model-checkpoints'',
      remove_unused_columns = False,
      eval_strategy = ''epoch'',
      save_strategy = ''epoch'',
      learning_rate = 5 / 1000,
      per_device_train_batch_size = batch_size,
      per_device_eval_batch_size = batch_size,
      gradient_accumulation_steps = 4,
      fp16 = True,
      logging_steps = 10,
      load_best_model_at_end = True,
      metric_for_best_model = ''accuracy'',
      label_names = [''labels''],
      num_train_epochs = default_epochs\<rparr>"

text \<open>
  \<^verbatim>\<open>
  for cfg in config.values():
      training_arguments.num_train_epochs = cfg["epochs"]

      trainer = Trainer(
          build_lora_model(cfg["label2id"], cfg["id2label"]),
          training_arguments,
          train_dataset=cfg["train_data"],
          eval_dataset=cfg["test_data"],
          tokenizer=image_processor,
          compute_metrics=compute_metrics,
          data_collator=data_collate,
      )

      results = trainer.train()
      evaluation_results = trainer.evaluate(cfg['test_data'])
      print(f"Evaluation accuracy: {evaluation_results['eval_accuracy']}")

      trainer.save_model(cfg["path"])
      print_model_size(cfg["path"])
  \<close>
  The state of the loop: the one \<^verbatim>\<open>training_arguments\<close> object, the trainers
  constructed so far, each with the model and the arguments it ran with, and the paths
  saved to. Training and saving are the library's; the two evaluation lines are
  \<open>evaluation_accuracy\<close> below, applied to the trainer of an iteration.
\<close>

record ('enc, 'score, 'r) trainer =
  trainer_model :: "('enc, 'score) model"
  trainer_args :: training_args
  train_dataset :: "'r dataset"
  eval_dataset :: "'r dataset"

record ('enc, 'score, 'r) training_state =
  st_arguments :: training_args
  st_trainers :: "('enc, 'score, 'r) trainer list"
  st_saved :: "string list"

fun training_loop ::
  "('enc, 'score) checkpoint \<Rightarrow> ('enc, 'score, 'r, 'ip) task list \<Rightarrow>
   ('enc, 'score, 'r) training_state \<Rightarrow> py_error + ('enc, 'score, 'r) training_state" where
  "training_loop pretrained [] st = Inr st"
| "training_loop pretrained (cfg # cfgs) st =
     (let args = (st_arguments st)\<lparr>num_train_epochs := epochs cfg\<rparr> in
      case build_lora_model pretrained (label2id cfg) (id2label cfg) of
        Inl e \<Rightarrow> Inl e
      | Inr lora_model \<Rightarrow>
          let trainer = \<lparr>trainer_model = lora_model, trainer_args = args,
                          train_dataset = train_data cfg, eval_dataset = test_data cfg\<rparr>
          in training_loop pretrained cfgs
               \<lparr>st_arguments = args,
                st_trainers = st_trainers st @ [trainer],
                st_saved = st_saved st @ [path cfg]\<rparr>)"

definition initial_state :: "int \<Rightarrow> ('enc, 'score, 'r) training_state" where
  "initial_state default_epochs =
     \<lparr>st_arguments = training_arguments default_epochs, st_trainers = [], st_saved = []\<rparr>"

text \<open>
  \<^verbatim>\<open>
  for cfg in config.values():
      cfg["inference_model"] = build_inference_model(cfg["label2id"], cfg["id2label"], cfg["path"])
      cfg["image_processor"] = AutoImageProcessor.from_pretrained(cfg["path"])
  \<close>
  The loop updates every entry of the dictionary in place.
  \<^verbatim>\<open>AutoImageProcessor.from_pretrained\<close> is the parameter \<open>load_processor\<close>.
\<close>

fun inference_loop ::
  "('enc, 'score) checkpoint \<Rightarrow> (('enc, 'score) model \<Rightarrow> string \<Rightarrow> ('enc, 'score) model) \<Rightarrow>
   (string \<Rightarrow> 'ip) \<Rightarrow> (string \<times> ('enc, 'score, 'r, 'ip) task) list \<Rightarrow>
   (string \<times> ('enc, 'score, 'r, 'ip) task) list" where
  "inference_loop pretrained peft_from_pretrained load_processor [] = []"
| "inference_loop pretrained peft_from_pretrained load_processor ((name, cfg) # rest) =
     (name,
      cfg\<lparr>inference_model :=
            Some (build_inference_model pretrained peft_from_pretrained
                    (label2id cfg) (id2label cfg) (path cfg)),
          image_processor := Some (load_processor (path cfg))\<rparr>)
     # inference_loop pretrained peft_from_pretrained load_processor rest"

text \<open>
  Modelled from the spec: \<^verbatim>\<open>trainer.evaluate\<close> of the training library, which the notebook
  calls and does not define. The spec (4.4): the driver, "after training, evaluates on the
  held-out split and reports accuracy". The trained model (\<open>train\<close>, the library's
  training run on the trainer) gives one row of logits for every record of the
  evaluation data (\<open>encode\<close>, the transformed and collated record); the rows and the
  records' labels (\<open>label_of\<close>) go to \<open>compute_metrics\<close>, the function the notebook
  hands to every trainer; the names of the metrics it returns are prefixed with
  \<^verbatim>\<open>eval_\<close>.
\<close>

definition trainer_evaluate ::
  "(('enc, 'score::linorder, 'r) trainer \<Rightarrow> ('enc, 'score) model) \<Rightarrow> ('r \<Rightarrow> 'enc) \<Rightarrow>
   ('r \<Rightarrow> nat) \<Rightarrow> ('enc, 'score, 'r) trainer \<Rightarrow> 'r dataset \<Rightarrow>
   py_error + (string \<times> rat) list" where
  "trainer_evaluate train encode label_of trainer eval_data =
     (let model = train trainer;
          eval_pred =
            \<lparr>predictions = map (\<lambda>x. forward model (encode x)) (records eval_data),
             label_ids = map label_of (records eval_data)\<rparr>
      in case compute_metrics eval_pred of
           Inl e \<Rightarrow> Inl e
         | Inr metrics \<Rightarrow> Inr (map (\<lambda>(key, v). (''eval_'' @ key, v)) metrics))"

text \<open>
  The evaluation lines of the training loop's body, for the trainer of one iteration:
  \<^verbatim>\<open>
      evaluation_results = trainer.evaluate(cfg['test_data'])
      print(f"Evaluation accuracy: {evaluation_results['eval_accuracy']}")
  \<close>
  The value is the accuracy that is printed; a missing key raises.
\<close>

definition evaluation_accuracy ::
  "(('enc, 'score::linorder, 'r) trainer \<Rightarrow> ('enc, 'score) model) \<Rightarrow> ('r \<Rightarrow> 'enc) \<Rightarrow>
   ('r \<Rightarrow> nat) \<Rightarrow> ('enc, 'score, 'r) trainer \<Rightarrow> ('enc, 'score, 'r, 'ip) task \<Rightarrow>
   py_error + rat" where
  "evaluation_accuracy train encode label_of trainer cfg =
     (case trainer_evaluate train encode label_of trainer (test_data cfg) of
        Inl e \<Rightarrow> Inl e
      | Inr evaluation_results \<Rightarrow>
          (case map_of evaluation_results ''eval_accuracy'' of
             None \<Rightarrow> Inl KeyError
           | Some a \<Rightarrow> Inr a))"

subsection \<open>A small instance: two tasks over a six-parameter checkpoint\<close>

text \<open>
  A checkpoint with a query, a key and a value projection and a classifier head, and the
  notebook's configuration over two small datasets. The instance is used to run the
  definitions on concrete input.
\<close>

definition example_checkpoint :: "(nat, int) checkpoint" where
  "example_checkpoint =
     \<lparr>checkpoint_parameters = (\<lambda>id2lbl.
        [([''encoder'', ''query''], ''weight'', [4, 4]),
         ([''encoder'', ''query''], ''bias'', [4]),
         ([''encoder'', ''key''], ''weight'', [4, 4]),
         ([''encoder'', ''value''], ''weight'', [4, 4]),
         ([''classifier''], ''weight'', [2, 4]),
         ([''classifier''], ''bias'', [2])]),
      checkpoint_forward = (\<lambda>id2lbl enc. [0, 1])\<rparr>"

definition example_dataset1 :: "nat dataset" where
  "example_dataset1 = \<lparr>features_label_names = [''apple_pie'', ''pizza''], records = [0, 1, 2]\<rparr>"

definition example_dataset2 :: "nat dataset" where
  "example_dataset2 = \<lparr>features_label_names = [''cat'', ''dog''], records = [3, 4]\<rparr>"

definition example_config :: "(string \<times> (nat, int, nat, string) task) list" where
  "example_config =
     config example_dataset1 example_dataset1 example_dataset1
            example_dataset2 example_dataset2 example_dataset2"

definition example_model :: "(nat, int) model" where
  "example_model =
     get_base_model example_checkpoint
       (fst (create_label_mappings example_dataset2))
       (snd (create_label_mappings example_dataset2))"

text \<open>
  A conversion on images given as a mode and a pixel value: like the imaging library, it
  refuses to convert an image of mode \<^verbatim>\<open>La\<close>, and otherwise returns the image in the
  requested mode.
\<close>

definition example_convert :: "string \<times> nat \<Rightarrow> string \<Rightarrow> py_error + string \<times> nat" where
  "example_convert im mode =
     (if fst im = ''La'' then Inl ValueError else Inr (mode, snd im))"

subsection \<open>Facts about the label mappings\<close>

lemma label_loop_snd:
  "snd (label_loop (enumerate k names) (l2i, i2l)) i =
     (if k \<le> i \<and> i < k + length names then Some (names ! (i - k)) else i2l i)"
proof (induction names arbitrary: k l2i i2l)
  case Nil
  then show ?case by auto
next
  case (Cons a names)
  have "snd (label_loop (enumerate k (a # names)) (l2i, i2l)) i =
        snd (label_loop (enumerate (Suc k) names) (l2i(a \<mapsto> k), i2l(k \<mapsto> a))) i"
    by (simp add: label_step_def)
  also have "\<dots> = (if Suc k \<le> i \<and> i < Suc k + length names
                    then Some (names ! (i - Suc k)) else (i2l(k \<mapsto> a)) i)"
    by (rule Cons.IH)
  also have "\<dots> = (if k \<le> i \<and> i < k + length (a # names)
                    then Some ((a # names) ! (i - k)) else i2l i)"
    by (auto simp: nth_Cons' Suc_diff_le)
  finally show ?case .
qed

lemma label_loop_fst_notin:
  "name \<notin> set names \<Longrightarrow> fst (label_loop (enumerate k names) (l2i, i2l)) name = l2i name"
  by (induction names arbitrary: k l2i i2l) (auto simp: label_step_def)

lemma label_loop_fst_distinct:
  "distinct names \<Longrightarrow> j < length names \<Longrightarrow>
     fst (label_loop (enumerate k names) (l2i, i2l)) (names ! j) = Some (k + j)"
proof (induction names arbitrary: k l2i i2l j)
  case Nil
  then show ?case by simp
next
  case (Cons a names)
  show ?case
  proof (cases j)
    case 0
    with Cons.prems show ?thesis
      by (simp add: label_step_def label_loop_fst_notin)
  next
    case (Suc m)
    with Cons.prems have m: "m < length names" and d: "distinct names" by simp_all
    have "fst (label_loop (enumerate k (a # names)) (l2i, i2l)) ((a # names) ! j) =
          fst (label_loop (enumerate (Suc k) names) (l2i(a \<mapsto> k), i2l(k \<mapsto> a))) (names ! m)"
      using Suc by (simp add: label_step_def)
    also have "\<dots> = Some (Suc k + m)"
      by (rule Cons.IH [OF d m])
    finally show ?thesis using Suc by simp
  qed
qed

lemma create_label_mappings_id2label:
  "snd (create_label_mappings ds) i =
     (if i < length (features_label_names ds) then Some (features_label_names ds ! i) else None)"
  by (simp add: create_label_mappings_def label_loop_snd)

lemma create_label_mappings_label2id:
  "distinct (features_label_names ds) \<Longrightarrow> j < length (features_label_names ds) \<Longrightarrow>
     fst (create_label_mappings ds) (features_label_names ds ! j) = Some j"
  using label_loop_fst_distinct [of "features_label_names ds" j 0 Map.empty Map.empty]
  by (simp add: create_label_mappings_def)

lemma create_label_mappings_label2id_None:
  "name \<notin> set (features_label_names ds) \<Longrightarrow> fst (create_label_mappings ds) name = None"
  by (simp add: create_label_mappings_def label_loop_fst_notin)

lemma create_label_mappings_dom_snd:
  "dom (snd (create_label_mappings ds)) = {..<length (features_label_names ds)}"
  by (auto simp: create_label_mappings_id2label dom_def)

lemma label_loop_fst_member:
  "name \<in> set names \<Longrightarrow>
     \<exists>j < length names. names ! j = name
        \<and> fst (label_loop (enumerate k names) (l2i, i2l)) name = Some (k + j)"
proof (induction names arbitrary: k l2i i2l)
  case Nil
  then show ?case by simp
next
  case (Cons a names)
  show ?case
  proof (cases "name \<in> set names")
    case True
    from Cons.IH [OF True, of "Suc k" "l2i(a \<mapsto> k)" "i2l(k \<mapsto> a)"]
    obtain j where j: "j < length names" "names ! j = name"
      "fst (label_loop (enumerate (Suc k) names) (l2i(a \<mapsto> k), i2l(k \<mapsto> a))) name
         = Some (Suc k + j)"
      by blast
    have "Suc j < length (a # names)" using j(1) by simp
    moreover have "(a # names) ! Suc j = name" using j(2) by simp
    moreover have "fst (label_loop (enumerate k (a # names)) (l2i, i2l)) name = Some (k + Suc j)"
      using j(3) by (simp add: label_step_def)
    ultimately show ?thesis by blast
  next
    case False
    with Cons.prems have eq: "name = a" by simp
    have "fst (label_loop (enumerate (Suc k) names) (l2i(a \<mapsto> k), i2l(k \<mapsto> a))) name
            = (l2i(a \<mapsto> k)) name"
      by (rule label_loop_fst_notin [OF False])
    then have "fst (label_loop (enumerate k (a # names)) (l2i, i2l)) name = Some (k + 0)"
      by (simp add: label_step_def eq)
    moreover have "0 < length (a # names)" "(a # names) ! 0 = name" by (simp_all add: eq)
    ultimately show ?thesis by blast
  qed
qed

lemma create_label_mappings_roundtrip:
  assumes "name \<in> set (features_label_names ds)"
  shows "\<exists>i. fst (create_label_mappings ds) name = Some i
           \<and> snd (create_label_mappings ds) i = Some name"
proof -
  from label_loop_fst_member [OF assms, of 0 Map.empty Map.empty]
  obtain j where j: "j < length (features_label_names ds)" "features_label_names ds ! j = name"
    "fst (create_label_mappings ds) name = Some j"
    by (auto simp: create_label_mappings_def)
  have "snd (create_label_mappings ds) j = Some name"
    using j(1,2) by (simp add: create_label_mappings_id2label)
  with j(3) show ?thesis by blast
qed

lemma create_label_mappings_dom_label2id:
  "dom (fst (create_label_mappings ds)) = set (features_label_names ds)"
proof (intro set_eqI iffI)
  fix name
  assume "name \<in> dom (fst (create_label_mappings ds))"
  then have a: "fst (create_label_mappings ds) name \<noteq> None"
    by (simp add: dom_def)
  show "name \<in> set (features_label_names ds)"
  proof (rule ccontr)
    assume "name \<notin> set (features_label_names ds)"
    then have "fst (create_label_mappings ds) name = None"
      by (rule create_label_mappings_label2id_None)
    with a show False by simp
  qed
next
  fix name
  assume "name \<in> set (features_label_names ds)"
  from create_label_mappings_roundtrip [OF this]
  show "name \<in> dom (fst (create_label_mappings ds))" by auto
qed

subsection \<open>Claim C4: the two label mappings are mutual inverses\<close>

text \<open>
  C4: for every dataset, \<open>id2label\<close> maps every index \<open>i\<close> below the number of class
  names to the i-th class name, its keys are exactly these indices, the keys of
  \<open>label2id\<close> are exactly the class names, and
  \<open>id2label[label2id[name]] = name\<close> for every class name. The class names of a
  dataset's label feature are pairwise distinct (the datasets library refuses a label
  feature with a duplicated name); with them distinct, \<open>label2id\<close> maps the i-th class
  name to \<open>i\<close> and \<open>label2id[id2label[i]] = i\<close> for every assigned id, so the two
  dictionaries are mutual inverses.
\<close>

theorem create_label_mappings_inverse:
  "(\<forall>i < length (features_label_names ds).
      snd (create_label_mappings ds) i = Some (features_label_names ds ! i))
   \<and> dom (snd (create_label_mappings ds)) = {..<length (features_label_names ds)}
   \<and> dom (fst (create_label_mappings ds)) = set (features_label_names ds)
   \<and> (\<forall>name \<in> set (features_label_names ds).
        \<exists>i. fst (create_label_mappings ds) name = Some i
           \<and> snd (create_label_mappings ds) i = Some name)
   \<and> (distinct (features_label_names ds) \<longrightarrow>
        (\<forall>i < length (features_label_names ds).
           fst (create_label_mappings ds) (features_label_names ds ! i) = Some i)
      \<and> (\<forall>i \<in> dom (snd (create_label_mappings ds)).
           \<exists>name. snd (create_label_mappings ds) i = Some name
              \<and> fst (create_label_mappings ds) name = Some i))"
proof (intro conjI allI ballI impI)
  fix i assume "i < length (features_label_names ds)"
  then show "snd (create_label_mappings ds) i = Some (features_label_names ds ! i)"
    by (simp add: create_label_mappings_id2label)
next
  show "dom (snd (create_label_mappings ds)) = {..<length (features_label_names ds)}"
    by (rule create_label_mappings_dom_snd)
next
  show "dom (fst (create_label_mappings ds)) = set (features_label_names ds)"
    by (rule create_label_mappings_dom_label2id)
next
  fix name assume "name \<in> set (features_label_names ds)"
  then show "\<exists>i. fst (create_label_mappings ds) name = Some i
      \<and> snd (create_label_mappings ds) i = Some name"
    by (rule create_label_mappings_roundtrip)
next
  fix i assume "distinct (features_label_names ds)" and "i < length (features_label_names ds)"
  then show "fst (create_label_mappings ds) (features_label_names ds ! i) = Some i"
    by (rule create_label_mappings_label2id)
next
  fix i assume d: "distinct (features_label_names ds)"
    and "i \<in> dom (snd (create_label_mappings ds))"
  then have i: "i < length (features_label_names ds)"
    by (simp add: create_label_mappings_dom_snd)
  have "snd (create_label_mappings ds) i = Some (features_label_names ds ! i)"
    using i by (simp add: create_label_mappings_id2label)
  moreover have "fst (create_label_mappings ds) (features_label_names ds ! i) = Some i"
    by (rule create_label_mappings_label2id [OF d i])
  ultimately show "\<exists>name. snd (create_label_mappings ds) i = Some name
      \<and> fst (create_label_mappings ds) name = Some i"
    by blast
qed

theorem create_label_mappings_inverse_witness:
  "distinct (features_label_names
      \<lparr>features_label_names = [''cat'', ''dog''], records = [] :: unit list\<rparr>)
   \<and> fst (create_label_mappings
          \<lparr>features_label_names = [''cat'', ''dog''], records = [] :: unit list\<rparr>) ''dog'' = Some 1
   \<and> snd (create_label_mappings
          \<lparr>features_label_names = [''cat'', ''dog''], records = [] :: unit list\<rparr>) 1 = Some ''dog''
   \<and> dom (fst (create_label_mappings
          \<lparr>features_label_names = [''cat'', ''dog''], records = [] :: unit list\<rparr>))
       = {''cat'', ''dog''}"
proof -
  have d: "distinct (features_label_names
      \<lparr>features_label_names = [''cat'', ''dog''], records = [] :: unit list\<rparr>)"
    by simp
  from create_label_mappings_inverse
    [of "\<lparr>features_label_names = [''cat'', ''dog''], records = [] :: unit list\<rparr>"] d
  show ?thesis
    by (simp add: create_label_mappings_def label_step_def)
qed

subsection \<open>Facts about argmax and the accuracy metric\<close>

lemma argmax_scan_correct:
  "length pre = i \<Longrightarrow> best < i \<Longrightarrow> pre ! best = v \<Longrightarrow>
   \<forall>x \<in> set pre. x \<le> v \<Longrightarrow> \<forall>j < best. pre ! j < v \<Longrightarrow>
   argmax_scan xs i best v < length (pre @ xs)
   \<and> (\<forall>x \<in> set (pre @ xs). x \<le> (pre @ xs) ! argmax_scan xs i best v)
   \<and> (\<forall>j < argmax_scan xs i best v. (pre @ xs) ! j < (pre @ xs) ! argmax_scan xs i best v)"
proof (induction xs arbitrary: pre i best v)
  case Nil
  then show ?case by simp
next
  case (Cons x xs)
  show ?case
  proof (cases "v < x")
    case True
    have 1: "length (pre @ [x]) = Suc i" using Cons.prems by simp
    have 2: "i < Suc i" by simp
    have 3: "(pre @ [x]) ! i = x" using Cons.prems(1) by (auto simp: nth_append)
    have 4: "\<forall>y \<in> set (pre @ [x]). y \<le> x" using Cons.prems True by auto
    have 5: "\<forall>j < i. (pre @ [x]) ! j < x"
    proof (intro allI impI)
      fix j assume "j < i"
      then have jl: "j < length pre" using Cons.prems(1) by simp
      then have "pre ! j \<in> set pre" by simp
      then have "pre ! j \<le> v" using Cons.prems(4) by blast
      then have "pre ! j < x" using True by simp
      then show "(pre @ [x]) ! j < x" using jl by (simp add: nth_append)
    qed
    from Cons.IH [OF 1 2 3 4 5] True show ?thesis by simp
  next
    case False
    have 1: "length (pre @ [x]) = Suc i" using Cons.prems by simp
    have 2: "best < Suc i" using Cons.prems by simp
    have 3: "(pre @ [x]) ! best = v" using Cons.prems by (simp add: nth_append)
    have 4: "\<forall>y \<in> set (pre @ [x]). y \<le> v" using Cons.prems False by auto
    have 5: "\<forall>j < best. (pre @ [x]) ! j < v" using Cons.prems by (simp add: nth_append)
    from Cons.IH [OF 1 2 3 4 5] False show ?thesis by simp
  qed
qed

lemma argmax_Some:
  assumes "xs \<noteq> []"
  shows "\<exists>k. argmax xs = Some k \<and> k < length xs \<and> (\<forall>x \<in> set xs. x \<le> xs ! k)
           \<and> (\<forall>j < k. xs ! j < xs ! k)"
proof -
  from assms obtain x rest where xs: "xs = x # rest" by (cases xs) auto
  have "argmax_scan rest 1 0 x < length ([x] @ rest)
   \<and> (\<forall>y \<in> set ([x] @ rest). y \<le> ([x] @ rest) ! argmax_scan rest 1 0 x)
   \<and> (\<forall>j < argmax_scan rest 1 0 x. ([x] @ rest) ! j < ([x] @ rest) ! argmax_scan rest 1 0 x)"
    by (rule argmax_scan_correct) simp_all
  then show ?thesis by (simp add: argmax_def xs)
qed

lemma argmax_None: "argmax xs = None \<longleftrightarrow> xs = []"
  by (cases xs) (simp_all add: argmax_def)

lemma argmax_axis1_Inr:
  "\<forall>row \<in> set rows. row \<noteq> [] \<Longrightarrow>
     \<exists>ks. argmax_axis1 rows = Inr ks \<and> length ks = length rows
        \<and> (\<forall>i < length rows. argmax (rows ! i) = Some (ks ! i))"
proof (induction rows)
  case Nil
  then show ?case by simp
next
  case (Cons row rows)
  then obtain ks where ks: "argmax_axis1 rows = Inr ks" "length ks = length rows"
      "\<forall>i < length rows. argmax (rows ! i) = Some (ks ! i)" by auto
  from Cons.prems have "row \<noteq> []" by simp
  then obtain k where k: "argmax row = Some k" using argmax_Some by blast
  have "\<forall>i < length (row # rows). argmax ((row # rows) ! i) = Some ((k # ks) ! i)"
    using k ks(3) by (auto simp: nth_Cons')
  with k ks show ?case by simp
qed

lemma metric_compute_accuracy:
  assumes "length preds = length refs" "refs \<noteq> []"
  shows "\<exists>a. metric_compute preds refs = Inr [(''accuracy'', a)] \<and> 0 \<le> a \<and> a \<le> 1
     \<and> a = of_nat (card {i. i < length refs \<and> preds ! i = refs ! i}) / of_nat (length refs)"
proof -
  let ?hits = "length (filter (\<lambda>(p, y). p = y) (zip preds refs))"
  have "{i. i < length (zip preds refs) \<and> (case zip preds refs ! i of (p, y) \<Rightarrow> p = y)}
        = {i. i < length refs \<and> preds ! i = refs ! i}"
    using assms(1) by auto
  then have hits: "?hits = card {i. i < length refs \<and> preds ! i = refs ! i}"
    by (simp only: length_filter_conv_card)
  have le: "?hits \<le> length refs"
    using length_filter_le [of "\<lambda>(p, y). p = y" "zip preds refs"] assms(1) by simp
  have pos: "0 < length refs" using assms(2) by simp
  have "(of_nat ?hits :: rat) \<le> of_nat (length refs)" using le by simp
  then have "(of_nat ?hits :: rat) / of_nat (length refs) \<le> 1"
    using pos by (simp add: divide_le_eq)
  moreover have "0 \<le> (of_nat ?hits :: rat) / of_nat (length refs)" by simp
  ultimately show ?thesis
    using assms hits by (simp add: metric_compute_def)
qed

subsection \<open>Claim C2: predict returns the highest-scoring label of the task\<close>



subsection \<open>The accuracy computed by compute_metrics\<close>

lemma compute_metrics_fraction:
  fixes e :: "('score::linorder) eval_prediction"
  assumes "predictions e \<noteq> []"
    and "length (label_ids e) = length (predictions e)"
    and "\<forall>row \<in> set (predictions e). row \<noteq> []"
  shows "\<exists>a. compute_metrics e = Inr [(''accuracy'', a)] \<and> 0 \<le> a \<and> a \<le> 1
     \<and> a = of_nat (card {i. i < length (predictions e)
                           \<and> argmax (predictions e ! i) = Some (label_ids e ! i)})
           / of_nat (length (predictions e))"
proof -
  from argmax_axis1_Inr [OF assms(3)] obtain ks where ks: "argmax_axis1 (predictions e) = Inr ks"
      "length ks = length (predictions e)"
      "\<forall>i < length (predictions e). argmax (predictions e ! i) = Some (ks ! i)"
    by blast
  have len: "length ks = length (label_ids e)" using ks(2) assms(2) by simp
  have ne: "label_ids e \<noteq> []" using assms(1,2) by auto
  from metric_compute_accuracy [OF len ne] obtain a where
    a: "metric_compute ks (label_ids e) = Inr [(''accuracy'', a)]" "0 \<le> a" "a \<le> 1"
       "a = of_nat (card {i. i < length (label_ids e) \<and> ks ! i = label_ids e ! i})
              / of_nat (length (label_ids e))"
    by blast
  have "{i. i < length (label_ids e) \<and> ks ! i = label_ids e ! i}
      = {i. i < length (predictions e) \<and> argmax (predictions e ! i) = Some (label_ids e ! i)}"
    using ks(3) assms(2) by auto
  with a(4) assms(2) have "a = of_nat (card {i. i < length (predictions e)
                           \<and> argmax (predictions e ! i) = Some (label_ids e ! i)})
           / of_nat (length (predictions e))"
    by simp
  moreover have "compute_metrics e = Inr [(''accuracy'', a)]"
    by (simp add: compute_metrics_def ks(1) a(1))
  ultimately show ?thesis using a(2,3) by blast
qed

subsection \<open>Facts about the two loops\<close>

lemma training_loop_runs:
  "training_loop pre cs st0 = Inr st \<Longrightarrow>
   \<exists>new. st_trainers st = st_trainers st0 @ new \<and> length new = length cs \<and>
     (\<forall>i < length cs.
        build_lora_model pre (label2id (cs ! i)) (id2label (cs ! i)) = Inr (trainer_model (new ! i))
      \<and> trainer_args (new ! i) = (st_arguments st0)\<lparr>num_train_epochs := epochs (cs ! i)\<rparr>
      \<and> train_dataset (new ! i) = train_data (cs ! i)
      \<and> eval_dataset (new ! i) = test_data (cs ! i))"
proof (induction cs arbitrary: st0)
  case Nil
  then show ?case by simp
next
  case (Cons c cs)
  from Cons.prems obtain lora_model where
    b: "build_lora_model pre (label2id c) (id2label c) = Inr lora_model"
    by (auto simp: Let_def split: sum.splits)
  let ?args = "(st_arguments st0)\<lparr>num_train_epochs := epochs c\<rparr>"
  let ?t = "\<lparr>trainer_model = lora_model, trainer_args = ?args,
             train_dataset = train_data c, eval_dataset = test_data c\<rparr>"
  let ?st1 = "\<lparr>st_arguments = ?args, st_trainers = st_trainers st0 @ [?t],
               st_saved = st_saved st0 @ [path c]\<rparr>"
  from Cons.prems b have "training_loop pre cs ?st1 = Inr st"
    by (simp add: Let_def)
  from Cons.IH [OF this] obtain new where
    new: "st_trainers st = st_trainers ?st1 @ new" "length new = length cs"
      "\<forall>i < length cs.
        build_lora_model pre (label2id (cs ! i)) (id2label (cs ! i)) = Inr (trainer_model (new ! i))
      \<and> trainer_args (new ! i) = (st_arguments ?st1)\<lparr>num_train_epochs := epochs (cs ! i)\<rparr>
      \<and> train_dataset (new ! i) = train_data (cs ! i)
      \<and> eval_dataset (new ! i) = test_data (cs ! i)"
    by blast
  have 1: "st_trainers st = st_trainers st0 @ (?t # new)" using new(1) by simp
  have 2: "length (?t # new) = length (c # cs)" using new(2) by simp
  have 3: "\<forall>i < length (c # cs).
        build_lora_model pre (label2id ((c # cs) ! i)) (id2label ((c # cs) ! i))
          = Inr (trainer_model ((?t # new) ! i))
      \<and> trainer_args ((?t # new) ! i)
          = (st_arguments st0)\<lparr>num_train_epochs := epochs ((c # cs) ! i)\<rparr>
      \<and> train_dataset ((?t # new) ! i) = train_data ((c # cs) ! i)
      \<and> eval_dataset ((?t # new) ! i) = test_data ((c # cs) ! i)"
  proof (intro allI impI)
    fix i assume i: "i < length (c # cs)"
    show "build_lora_model pre (label2id ((c # cs) ! i)) (id2label ((c # cs) ! i))
          = Inr (trainer_model ((?t # new) ! i))
      \<and> trainer_args ((?t # new) ! i)
          = (st_arguments st0)\<lparr>num_train_epochs := epochs ((c # cs) ! i)\<rparr>
      \<and> train_dataset ((?t # new) ! i) = train_data ((c # cs) ! i)
      \<and> eval_dataset ((?t # new) ! i) = test_data ((c # cs) ! i)"
    proof (cases i)
      case 0
      then show ?thesis using b by simp
    next
      case (Suc j)
      with i have "j < length cs" by simp
      with new(3) Suc show ?thesis by simp
    qed
  qed
  from 1 2 3 show ?case by blast
qed

lemma training_loop_arguments:
  "training_loop pre cs st0 = Inr st \<Longrightarrow>
     (st_arguments st)\<lparr>num_train_epochs := x\<rparr> = (st_arguments st0)\<lparr>num_train_epochs := x\<rparr>"
proof (induction cs arbitrary: st0)
  case Nil
  then show ?case by simp
next
  case (Cons c cs)
  from Cons.prems obtain lora_model where
    b: "build_lora_model pre (label2id c) (id2label c) = Inr lora_model"
    by (auto simp: Let_def split: sum.splits)
  let ?args = "(st_arguments st0)\<lparr>num_train_epochs := epochs c\<rparr>"
  let ?t = "\<lparr>trainer_model = lora_model, trainer_args = ?args,
             train_dataset = train_data c, eval_dataset = test_data c\<rparr>"
  let ?st1 = "\<lparr>st_arguments = ?args, st_trainers = st_trainers st0 @ [?t],
               st_saved = st_saved st0 @ [path c]\<rparr>"
  from Cons.prems b have "training_loop pre cs ?st1 = Inr st"
    by (simp add: Let_def)
  from Cons.IH [OF this] show ?case by simp
qed

lemma training_loop_saved:
  "training_loop pre cs st0 = Inr st \<Longrightarrow> st_saved st = st_saved st0 @ map path cs"
proof (induction cs arbitrary: st0)
  case Nil
  then show ?case by simp
next
  case (Cons c cs)
  from Cons.prems obtain lora_model where
    b: "build_lora_model pre (label2id c) (id2label c) = Inr lora_model"
    by (auto simp: Let_def split: sum.splits)
  let ?args = "(st_arguments st0)\<lparr>num_train_epochs := epochs c\<rparr>"
  let ?t = "\<lparr>trainer_model = lora_model, trainer_args = ?args,
             train_dataset = train_data c, eval_dataset = test_data c\<rparr>"
  let ?st1 = "\<lparr>st_arguments = ?args, st_trainers = st_trainers st0 @ [?t],
               st_saved = st_saved st0 @ [path c]\<rparr>"
  from Cons.prems b have "training_loop pre cs ?st1 = Inr st"
    by (simp add: Let_def)
  from Cons.IH [OF this] show ?case by simp
qed

lemma inference_loop_length:
  "length (inference_loop pre pfp lp cfgs) = length cfgs"
  by (induction cfgs) auto

lemma inference_loop_nth:
  "i < length cfgs \<Longrightarrow>
     inference_loop pre pfp lp cfgs ! i =
       (fst (cfgs ! i),
        (snd (cfgs ! i))\<lparr>inference_model :=
            Some (build_inference_model pre pfp (label2id (snd (cfgs ! i)))
                    (id2label (snd (cfgs ! i))) (path (snd (cfgs ! i)))),
          image_processor := Some (lp (path (snd (cfgs ! i))))\<rparr>)"
proof (induction cfgs arbitrary: i)
  case Nil
  then show ?case by simp
next
  case (Cons a cfgs)
  obtain name cfg where a: "a = (name, cfg)" by (cases a)
  show ?case
  proof (cases i)
    case 0
    then show ?thesis by (simp add: a)
  next
    case (Suc j)
    with Cons.prems have "j < length cfgs" by simp
    from Cons.IH [OF this] Suc show ?thesis by (simp add: a)
  qed
qed

lemma build_lora_model_config:
  "build_lora_model pre l2i i2l = Inr m \<Longrightarrow>
     model_config m = \<lparr>config_label2id = l2i, config_id2label = i2l\<rparr>"
  by (auto simp: build_lora_model_def Let_def get_peft_model_def get_base_model_def
      split: sum.splits)


lemmas example_unfold = example_config_def config_def create_label_mappings_def label_step_def
   build_lora_model_def print_trainable_parameters_def get_base_model_def get_peft_model_def
   wrap_parameter_def module_key_def numel_def example_checkpoint_def Let_def initial_state_def
   example_dataset1_def example_dataset2_def

lemma example_training_succeeds:
  "\<exists>st. training_loop example_checkpoint (map snd example_config) (initial_state 3) = Inr st"
  by (simp add: example_unfold)

subsection \<open>Claim C1: training and inference are built from the same label mappings\<close>

text \<open>
  C1: the training loop (cell 20) and then the inference loop (cell 24) run over the same
  configuration. For every task, the training model is
  \<open>build_lora_model\<close> applied to the entry's \<open>label2id\<close> and \<open>id2label\<close>, the
  inference model stored in the entry is \<open>build_inference_model\<close> applied to the same
  two mappings (and the entry's path), the training model's configuration holds exactly
  these mappings, and the inference loop leaves the entry's name and mappings unchanged.
\<close>

theorem label_mappings_agree:
  assumes run: "training_loop pre (map snd cfgs) (initial_state d) = Inr st"
    and i: "i < length cfgs"
  shows "build_lora_model pre (label2id (snd (cfgs ! i))) (id2label (snd (cfgs ! i)))
           = Inr (trainer_model (st_trainers st ! i))
       \<and> inference_model (snd (inference_loop pre pfp lp cfgs ! i))
           = Some (build_inference_model pre pfp (label2id (snd (cfgs ! i)))
                     (id2label (snd (cfgs ! i))) (path (snd (cfgs ! i))))
       \<and> config_label2id (model_config (trainer_model (st_trainers st ! i)))
           = label2id (snd (cfgs ! i))
       \<and> config_id2label (model_config (trainer_model (st_trainers st ! i)))
           = id2label (snd (cfgs ! i))
       \<and> fst (inference_loop pre pfp lp cfgs ! i) = fst (cfgs ! i)
       \<and> label2id (snd (inference_loop pre pfp lp cfgs ! i)) = label2id (snd (cfgs ! i))
       \<and> id2label (snd (inference_loop pre pfp lp cfgs ! i)) = id2label (snd (cfgs ! i))"
proof -
  from training_loop_runs [OF run] obtain new where
    new: "st_trainers st = st_trainers (initial_state d) @ new"
      "\<forall>i < length (map snd cfgs).
        build_lora_model pre (label2id (map snd cfgs ! i)) (id2label (map snd cfgs ! i))
          = Inr (trainer_model (new ! i))"
    by blast
  have "st_trainers st = new" using new(1) by (simp add: initial_state_def)
  with new(2) i have b: "build_lora_model pre (label2id (snd (cfgs ! i))) (id2label (snd (cfgs ! i)))
           = Inr (trainer_model (st_trainers st ! i))"
    by simp
  note c = build_lora_model_config [OF b]
  show ?thesis
    using b c by (simp add: inference_loop_nth [OF i])
qed

theorem label_mappings_agree_witness:
  "\<exists>st. training_loop example_checkpoint (map snd example_config) (initial_state 3) = Inr st
     \<and> (1 :: nat) < length example_config
     \<and> config_id2label (model_config (trainer_model (st_trainers st ! 1))) 1 = Some ''dog''
     \<and> config_label2id (model_config (trainer_model (st_trainers st ! 1))) ''dog'' = Some 1
     \<and> inference_model
           (snd (inference_loop example_checkpoint (\<lambda>m p. m) (\<lambda>p. p) example_config ! 1))
         = Some (build_inference_model example_checkpoint (\<lambda>m p. m)
                   (label2id (snd (example_config ! 1))) (id2label (snd (example_config ! 1)))
                   ''./lora-model2'')
     \<and> id2label (snd (example_config ! 1)) 1 = Some ''dog''"
proof -
  from example_training_succeeds obtain st where
    st: "training_loop example_checkpoint (map snd example_config) (initial_state 3) = Inr st"
    by blast
  have i: "(1 :: nat) < length example_config"
    by (simp add: example_config_def config_def split: prod.splits)
  have e: "id2label (snd (example_config ! 1)) 1 = Some ''dog''"
      "label2id (snd (example_config ! 1)) ''dog'' = Some 1"
      "path (snd (example_config ! 1)) = ''./lora-model2''"
    by (simp_all add: example_config_def config_def create_label_mappings_def label_step_def
        example_dataset1_def example_dataset2_def)
  note t = label_mappings_agree [OF st i, of "\<lambda>m p. m" "\<lambda>p. p"]
  have c1: "config_id2label (model_config (trainer_model (st_trainers st ! 1))) 1 = Some ''dog''"
    using t e(1) by simp
  have c2: "config_label2id (model_config (trainer_model (st_trainers st ! 1))) ''dog'' = Some 1"
    using t e(2) by simp
  have c3: "inference_model
           (snd (inference_loop example_checkpoint (\<lambda>m p. m) (\<lambda>p. p) example_config ! 1))
         = Some (build_inference_model example_checkpoint (\<lambda>m p. m)
                   (label2id (snd (example_config ! 1))) (id2label (snd (example_config ! 1)))
                   ''./lora-model2'')"
    using t e(3) by simp
  from st i c1 c2 c3 e(1) show ?thesis by blast
qed

lemma training_arguments_fields:
  "num_train_epochs ((training_arguments d)\<lparr>num_train_epochs := e\<rparr>) = e"
  "per_device_train_batch_size ((training_arguments d)\<lparr>num_train_epochs := e\<rparr>) = 128"
  "per_device_eval_batch_size ((training_arguments d)\<lparr>num_train_epochs := e\<rparr>) = 128"
  "gradient_accumulation_steps ((training_arguments d)\<lparr>num_train_epochs := e\<rparr>) = 4"
  "learning_rate ((training_arguments d)\<lparr>num_train_epochs := e\<rparr>) = 5 / 1000"
  "fp16 ((training_arguments d)\<lparr>num_train_epochs := e\<rparr>)"
  "load_best_model_at_end ((training_arguments d)\<lparr>num_train_epochs := e\<rparr>)"
  "metric_for_best_model ((training_arguments d)\<lparr>num_train_epochs := e\<rparr>) = ''accuracy''"
  by (simp_all add: training_arguments_def batch_size_def)

lemma training_arguments_reset:
  "(training_arguments d)\<lparr>num_train_epochs := d\<rparr> = training_arguments d"
  by (simp add: training_arguments_def)

lemma initial_state_simps:
  "st_arguments (initial_state d) = training_arguments d"
  "st_trainers (initial_state d) = []"
  "st_saved (initial_state d) = []"
  by (simp_all add: initial_state_def)

subsection \<open>Claim C9: the loop changes only the epoch count of the training arguments\<close>

text \<open>
  C9: one \<open>training_arguments\<close> value is threaded through the training loop. The
  trainer of every task runs with the initial arguments in which only
  \<open>num_train_epochs\<close> is replaced by the task's epoch count: batch size 128 for
  training and evaluation, gradient accumulation 4, learning rate 5e-3, fp16, best-model
  selection by accuracy. After the loop the arguments differ from the initial ones at most
  in \<open>num_train_epochs\<close>.
\<close>

theorem training_arguments_frame:
  assumes run: "training_loop pre (map snd cfgs) (initial_state d) = Inr st"
  shows "length (st_trainers st) = length cfgs
       \<and> (\<forall>i < length cfgs.
             trainer_args (st_trainers st ! i)
               = (training_arguments d)\<lparr>num_train_epochs := epochs (snd (cfgs ! i))\<rparr>
           \<and> num_train_epochs (trainer_args (st_trainers st ! i)) = epochs (snd (cfgs ! i))
           \<and> per_device_train_batch_size (trainer_args (st_trainers st ! i)) = 128
           \<and> per_device_eval_batch_size (trainer_args (st_trainers st ! i)) = 128
           \<and> gradient_accumulation_steps (trainer_args (st_trainers st ! i)) = 4
           \<and> learning_rate (trainer_args (st_trainers st ! i)) = 5 / 1000
           \<and> fp16 (trainer_args (st_trainers st ! i))
           \<and> load_best_model_at_end (trainer_args (st_trainers st ! i))
           \<and> metric_for_best_model (trainer_args (st_trainers st ! i)) = ''accuracy'')
       \<and> (st_arguments st)\<lparr>num_train_epochs := d\<rparr> = training_arguments d"
proof -
  from training_loop_runs [OF run, unfolded initial_state_simps] obtain new where
    n: "st_trainers st = [] @ new \<and> length new = length (map snd cfgs) \<and>
      (\<forall>i < length (map snd cfgs).
        build_lora_model pre (label2id (map snd cfgs ! i)) (id2label (map snd cfgs ! i))
          = Inr (trainer_model (new ! i))
      \<and> trainer_args (new ! i)
          = (training_arguments d)\<lparr>num_train_epochs := epochs (map snd cfgs ! i)\<rparr>
      \<and> train_dataset (new ! i) = train_data (map snd cfgs ! i)
      \<and> eval_dataset (new ! i) = test_data (map snd cfgs ! i))"
    by iprover
  note new = n [THEN conjunct1] n [THEN conjunct2, THEN conjunct1]
  note allnew = n [THEN conjunct2, THEN conjunct2, rule_format]
  have eq: "st_trainers st = new" using new(1) by simp
  have len: "length (st_trainers st) = length cfgs" using eq new(2) by simp
  have args: "trainer_args (st_trainers st ! i)
               = (training_arguments d)\<lparr>num_train_epochs := epochs (snd (cfgs ! i))\<rparr>"
    if i: "i < length cfgs" for i
  proof -
    from i have "i < length (map snd cfgs)" by simp
    from allnew [OF this] have "trainer_args (new ! i)
          = (training_arguments d)\<lparr>num_train_epochs := epochs (map snd cfgs ! i)\<rparr>"
      by (elim conjE)
    then show ?thesis using i by (simp only: eq nth_map)
  qed
  have fin: "(st_arguments st)\<lparr>num_train_epochs := d\<rparr> = training_arguments d"
    using training_loop_arguments [OF run, of d]
    by (simp only: initial_state_simps training_arguments_reset)
  show ?thesis
  proof (intro conjI allI impI)
    show "length (st_trainers st) = length cfgs" by (rule len)
  next
    show "(st_arguments st)\<lparr>num_train_epochs := d\<rparr> = training_arguments d" by (rule fin)
  next
    fix i assume i: "i < length cfgs"
    note a = args [OF i]
    show "trainer_args (st_trainers st ! i)
               = (training_arguments d)\<lparr>num_train_epochs := epochs (snd (cfgs ! i))\<rparr>"
      by (rule a)
    show "num_train_epochs (trainer_args (st_trainers st ! i)) = epochs (snd (cfgs ! i))"
      by (simp only: a training_arguments_fields)
    show "per_device_train_batch_size (trainer_args (st_trainers st ! i)) = 128"
      by (simp only: a training_arguments_fields)
    show "per_device_eval_batch_size (trainer_args (st_trainers st ! i)) = 128"
      by (simp only: a training_arguments_fields)
    show "gradient_accumulation_steps (trainer_args (st_trainers st ! i)) = 4"
      by (simp only: a training_arguments_fields)
    show "learning_rate (trainer_args (st_trainers st ! i)) = 5 / 1000"
      by (simp only: a training_arguments_fields)
    show "fp16 (trainer_args (st_trainers st ! i))"
      by (simp only: a training_arguments_fields)
    show "load_best_model_at_end (trainer_args (st_trainers st ! i))"
      by (simp only: a training_arguments_fields)
    show "metric_for_best_model (trainer_args (st_trainers st ! i)) = ''accuracy''"
      by (simp only: a training_arguments_fields)
  qed
qed

theorem training_arguments_frame_witness:
  "\<exists>st. training_loop example_checkpoint (map snd example_config) (initial_state 3) = Inr st
     \<and> length (st_trainers st) = 2
     \<and> num_train_epochs (trainer_args (st_trainers st ! 0)) = 5
     \<and> num_train_epochs (trainer_args (st_trainers st ! 1)) = 1
     \<and> per_device_train_batch_size (trainer_args (st_trainers st ! 0)) = 128
     \<and> per_device_train_batch_size (trainer_args (st_trainers st ! 1)) = 128
     \<and> (st_arguments st)\<lparr>num_train_epochs := 3\<rparr> = training_arguments 3"
proof -
  from example_training_succeeds obtain st where
    st: "training_loop example_checkpoint (map snd example_config) (initial_state 3) = Inr st"
    by blast
  have l: "length example_config = 2"
    by (simp add: example_config_def config_def split: prod.splits)
  have e: "epochs (snd (example_config ! 0)) = 5" "epochs (snd (example_config ! 1)) = 1"
    by (simp_all add: example_config_def config_def split: prod.splits)
  note t = training_arguments_frame [OF st]
  have len: "length (st_trainers st) = 2" using t l by simp
  have i0: "(0 :: nat) < length example_config" and i1: "(1 :: nat) < length example_config"
    using l by simp_all
  note q = t [THEN conjunct2, THEN conjunct1, rule_format]
  note q0 = q [OF i0] and q1 = q [OF i1]
  have fin: "(st_arguments st)\<lparr>num_train_epochs := 3\<rparr> = training_arguments 3"
    by (rule t [THEN conjunct2, THEN conjunct2])
  have v: "num_train_epochs (trainer_args (st_trainers st ! 0)) = 5"
      "num_train_epochs (trainer_args (st_trainers st ! 1)) = 1"
      "per_device_train_batch_size (trainer_args (st_trainers st ! 0)) = 128"
      "per_device_train_batch_size (trainer_args (st_trainers st ! 1)) = 128"
    using q0 q1 e by (simp_all add: training_arguments_def batch_size_def)
  from st len v fin show ?thesis by blast
qed

subsection \<open>Facts about the adapter wrapping\<close>

lemma module_key_requires_grad_update:
  "module_key (p\<lparr>requires_grad := b\<rparr>) = module_key p"
  by (simp add: module_key_def split: list.splits)

lemma numel_requires_grad_update:
  "numel (p\<lparr>requires_grad := b\<rparr>) = numel p"
  by (simp add: numel_def)

lemma wrap_parameter_member:
  assumes "origin p = Backbone" and "q \<in> set (wrap_parameter lcfg p)"
  shows "(origin q \<noteq> Backbone \<longrightarrow>
            module_key q \<in> set (target_modules lcfg)
          \<and> module_key q \<notin> set (modules_to_save lcfg)
          \<and> (origin q = Lora_A \<longrightarrow> (\<exists>n. shape q = [r lcfg, n]))
          \<and> (origin q = Lora_B \<longrightarrow> (\<exists>n. shape q = [n, r lcfg])))
       \<and> (requires_grad q \<longleftrightarrow>
            origin q \<noteq> Backbone \<or> module_key q \<in> set (modules_to_save lcfg))"
  using assms
  by (auto simp: wrap_parameter_def module_key_def split: if_splits list.splits)

lemma wrap_parameter_backbone:
  "origin p = Backbone \<Longrightarrow>
     filter (\<lambda>q. origin q = Backbone) (wrap_parameter lcfg p)
       = [p\<lparr>requires_grad := (module_key p \<in> set (modules_to_save lcfg))\<rparr>]"
  by (auto simp: wrap_parameter_def split: list.splits)

lemma wrap_parameter_adapters:
  assumes "module_key p \<in> set (target_modules lcfg)"
    and "module_key p \<notin> set (modules_to_save lcfg)"
    and "param_name p = ''weight''" and "shape p = [out, inn]"
  shows "\<lparr>module_path = module_path p, param_name = ''lora_A'', shape = [r lcfg, inn],
           requires_grad = True, origin = Lora_A\<rparr> \<in> set (wrap_parameter lcfg p)
       \<and> \<lparr>module_path = module_path p, param_name = ''lora_B'', shape = [out, r lcfg],
           requires_grad = True, origin = Lora_B\<rparr> \<in> set (wrap_parameter lcfg p)"
  using assms by (simp add: wrap_parameter_def)

lemma filter_backbone_concat:
  "\<forall>p \<in> set ps. origin p = Backbone \<Longrightarrow>
     filter (\<lambda>q. origin q = Backbone) (concat (map (wrap_parameter lcfg) ps))
       = map (\<lambda>p. p\<lparr>requires_grad := (module_key p \<in> set (modules_to_save lcfg))\<rparr>) ps"
  by (induction ps) (simp_all add: wrap_parameter_backbone)

lemma get_base_model_parameters:
  "p \<in> set (named_parameters (get_base_model pre l2i i2l)) \<Longrightarrow>
     origin p = Backbone \<and> requires_grad p"
  by (auto simp: get_base_model_def)

lemma count_parameters_sum:
  "count_parameters ps (a, b) =
     (a + sum_list (map numel ps), b + sum_list (map numel (filter requires_grad ps)))"
  by (induction ps arbitrary: a b) auto

lemma numel_wrap_parameter:
  "numel p \<le> sum_list (map numel (wrap_parameter lcfg p))"
  by (simp add: wrap_parameter_def numel_def split: list.splits)

lemma numel_wrapped_total:
  "sum_list (map numel ps) \<le> sum_list (map numel (concat (map (wrap_parameter lcfg) ps)))"
proof (induction ps)
  case Nil
  then show ?case by simp
next
  case (Cons p ps)
  then show ?case using numel_wrap_parameter [of p lcfg] by simp
qed

lemma build_lora_model_Inr:
  assumes "build_lora_model pre l2i i2l = Inr m"
  shows "m = get_peft_model (get_base_model pre l2i i2l)
               \<lparr>r = 16, lora_alpha = 16, target_modules = [''query'', ''value''],
                lora_dropout = 1 / 10, bias = ''none'', modules_to_save = [''classifier'']\<rparr>"
  using assms by (auto simp: build_lora_model_def Let_def split: sum.splits)

lemma fst_count_parameters:
  "fst (count_parameters ps (0, 0)) = sum_list (map numel ps)"
  by (simp add: count_parameters_sum)

lemma print_trainable_parameters_Inr:
  "0 < fst (count_parameters (named_parameters mdl) (0, 0)) \<Longrightarrow>
     \<exists>x. print_trainable_parameters mdl lbl = Inr x"
  by (auto simp: print_trainable_parameters_def split: prod.splits)

lemma build_lora_model_succeeds:
  assumes "0 < sum_list (map numel (named_parameters (get_base_model pre l2i i2l)))"
  shows "\<exists>m. build_lora_model pre l2i i2l = Inr m"
proof -
  let ?base = "get_base_model pre l2i i2l"
  let ?cfg = "\<lparr>r = 16, lora_alpha = 16, target_modules = [''query'', ''value''],
                lora_dropout = 1 / 10, bias = ''none'', modules_to_save = [''classifier'']\<rparr>"
  have "0 < fst (count_parameters (named_parameters ?base) (0, 0))"
    using assms by (simp only: fst_count_parameters)
  then have 1: "\<exists>x. print_trainable_parameters ?base ''Base model'' = Inr x"
    by (rule print_trainable_parameters_Inr)
  have ps: "named_parameters (get_peft_model ?base ?cfg)
      = concat (map (wrap_parameter ?cfg) (named_parameters ?base))"
    by (simp add: get_peft_model_def)
  have "0 < sum_list (map numel (named_parameters (get_peft_model ?base ?cfg)))"
    unfolding ps by (rule less_le_trans [OF assms numel_wrapped_total])
  then have "0 < fst (count_parameters (named_parameters (get_peft_model ?base ?cfg)) (0, 0))"
    by (simp only: fst_count_parameters)
  then have 2: "\<exists>x. print_trainable_parameters (get_peft_model ?base ?cfg) ''LoRA'' = Inr x"
    by (rule print_trainable_parameters_Inr)
  from 1 2 show ?thesis
    by (auto simp: build_lora_model_def Let_def)
qed

subsection \<open>Claim C6: what build_lora_model trains\<close>

text \<open>
  C6: for every pair of label mappings for which \<open>build_lora_model\<close> returns, the
  model carries the adapter configuration of rank 16, alpha 16 and dropout 0.1 on the
  modules \<open>query\<close> and \<open>value\<close>. Every adapter matrix sits on a module named
  \<open>query\<close> or \<open>value\<close> and has rank 16; every weight matrix of such a module has
  its two adapter matrices; the backbone parameters are those of the base model, in
  order, frozen except those of the module \<open>classifier\<close>; and a parameter is
  trainable exactly if it is an adapter matrix or belongs to the classifier head.
\<close>

theorem build_lora_model_trainable:
  assumes "build_lora_model pre l2i i2l = Inr m"
  shows "peft_config m =
           Some \<lparr>r = 16, lora_alpha = 16, target_modules = [''query'', ''value''],
                 lora_dropout = 1 / 10, bias = ''none'', modules_to_save = [''classifier'']\<rparr>
       \<and> (\<forall>p \<in> set (named_parameters m).
             (origin p \<noteq> Backbone \<longrightarrow>
                (module_key p = ''query'' \<or> module_key p = ''value'')
              \<and> (origin p = Lora_A \<longrightarrow> (\<exists>n. shape p = [16, n]))
              \<and> (origin p = Lora_B \<longrightarrow> (\<exists>n. shape p = [n, 16])))
           \<and> (requires_grad p \<longleftrightarrow> origin p \<noteq> Backbone \<or> module_key p = ''classifier''))
       \<and> filter (\<lambda>p. origin p = Backbone) (named_parameters m)
           = map (\<lambda>p. p\<lparr>requires_grad := (module_key p = ''classifier'')\<rparr>)
               (named_parameters (get_base_model pre l2i i2l))
       \<and> (\<forall>p \<in> set (named_parameters (get_base_model pre l2i i2l)). \<forall>out inn.
             (module_key p = ''query'' \<or> module_key p = ''value'')
             \<and> param_name p = ''weight'' \<and> shape p = [out, inn] \<longrightarrow>
               \<lparr>module_path = module_path p, param_name = ''lora_A'', shape = [16, inn],
                requires_grad = True, origin = Lora_A\<rparr> \<in> set (named_parameters m)
             \<and> \<lparr>module_path = module_path p, param_name = ''lora_B'', shape = [out, 16],
                requires_grad = True, origin = Lora_B\<rparr> \<in> set (named_parameters m))"
proof -
  let ?base = "get_base_model pre l2i i2l"
  let ?cfg = "\<lparr>r = 16, lora_alpha = 16, target_modules = [''query'', ''value''],
                lora_dropout = 1 / 10, bias = ''none'', modules_to_save = [''classifier'']\<rparr>"
  have m: "m = get_peft_model ?base ?cfg" by (rule build_lora_model_Inr [OF assms])
  have ps: "named_parameters m = concat (map (wrap_parameter ?cfg) (named_parameters ?base))"
    by (simp add: m get_peft_model_def)
  have c1: "peft_config m = Some ?cfg" by (simp add: m get_peft_model_def)
  have c2: "(origin q \<noteq> Backbone \<longrightarrow>
                (module_key q = ''query'' \<or> module_key q = ''value'')
              \<and> (origin q = Lora_A \<longrightarrow> (\<exists>n. shape q = [16, n]))
              \<and> (origin q = Lora_B \<longrightarrow> (\<exists>n. shape q = [n, 16])))
           \<and> (requires_grad q \<longleftrightarrow> origin q \<noteq> Backbone \<or> module_key q = ''classifier'')"
    if "q \<in> set (named_parameters m)" for q
  proof -
    from that ps obtain p where p: "p \<in> set (named_parameters ?base)"
        and q: "q \<in> set (wrap_parameter ?cfg p)"
      by auto
    from get_base_model_parameters [OF p] have "origin p = Backbone" by simp
    from wrap_parameter_member [OF this q] show ?thesis by simp
  qed
  have c3: "filter (\<lambda>p. origin p = Backbone) (named_parameters m)
           = map (\<lambda>p. p\<lparr>requires_grad := (module_key p = ''classifier'')\<rparr>)
               (named_parameters ?base)"
  proof -
    have "\<forall>p \<in> set (named_parameters ?base). origin p = Backbone"
      using get_base_model_parameters by blast
    from filter_backbone_concat [OF this, of ?cfg] show ?thesis by (simp add: ps)
  qed
  have c4: "\<lparr>module_path = module_path p, param_name = ''lora_A'', shape = [16, inn],
                requires_grad = True, origin = Lora_A\<rparr> \<in> set (named_parameters m)
             \<and> \<lparr>module_path = module_path p, param_name = ''lora_B'', shape = [out, 16],
                requires_grad = True, origin = Lora_B\<rparr> \<in> set (named_parameters m)"
    if p: "p \<in> set (named_parameters ?base)"
      and k: "module_key p = ''query'' \<or> module_key p = ''value''"
      and w: "param_name p = ''weight''" and s: "shape p = [out, inn]" for p out inn
  proof -
    have t: "module_key p \<in> set (target_modules ?cfg)" using k by auto
    have n: "module_key p \<notin> set (modules_to_save ?cfg)" using k by auto
    from wrap_parameter_adapters [OF t n w s] p show ?thesis
      by (auto simp: ps)
  qed
  show ?thesis
    using c1 c2 c3 c4 by blast
qed


theorem build_lora_model_trainable_witness:
  "\<exists>m. build_lora_model example_checkpoint Map.empty Map.empty = Inr m
     \<and> peft_config m =
           Some \<lparr>r = 16, lora_alpha = 16, target_modules = [''query'', ''value''],
                 lora_dropout = 1 / 10, bias = ''none'', modules_to_save = [''classifier'']\<rparr>
     \<and> map requires_grad (named_parameters m)
         = [False, True, True, False, False, False, True, True, True, True]
     \<and> map origin (named_parameters m)
         = [Backbone, Lora_A, Lora_B, Backbone, Backbone, Backbone, Lora_A, Lora_B,
            Backbone, Backbone]
     \<and> map shape (named_parameters m)
         = [[4, 4], [16, 4], [4, 16], [4], [4, 4], [4, 4], [16, 4], [4, 16], [2, 4], [2]]"
proof -
  have "0 < sum_list (map numel
      (named_parameters (get_base_model example_checkpoint Map.empty Map.empty)))"
    by (simp add: get_base_model_def example_checkpoint_def numel_def)
  from build_lora_model_succeeds [OF this] obtain m where
    m: "build_lora_model example_checkpoint Map.empty Map.empty = Inr m" by blast
  note t = build_lora_model_trainable [OF m]
  have c1: "peft_config m =
           Some \<lparr>r = 16, lora_alpha = 16, target_modules = [''query'', ''value''],
                 lora_dropout = 1 / 10, bias = ''none'', modules_to_save = [''classifier'']\<rparr>"
    by (rule t [THEN conjunct1])
  note mm = build_lora_model_Inr [OF m]
  have c2: "map requires_grad (named_parameters m)
         = [False, True, True, False, False, False, True, True, True, True]"
    by (simp add: mm get_peft_model_def get_base_model_def wrap_parameter_def module_key_def
        example_checkpoint_def)
  have c3: "map origin (named_parameters m)
         = [Backbone, Lora_A, Lora_B, Backbone, Backbone, Backbone, Lora_A, Lora_B,
            Backbone, Backbone]"
    by (simp add: mm get_peft_model_def get_base_model_def wrap_parameter_def module_key_def
        example_checkpoint_def)
  have c4: "map shape (named_parameters m)
         = [[4, 4], [16, 4], [4, 16], [4], [4, 4], [4, 4], [16, 4], [4, 16], [2, 4], [2]]"
    by (simp add: mm get_peft_model_def get_base_model_def wrap_parameter_def module_key_def
        example_checkpoint_def)
  show ?thesis by (intro exI [of _ m] conjI m c1 c2 c3 c4)
qed

subsection \<open>Facts about the evaluation of a trainer\<close>

lemma build_lora_model_forward:
  "build_lora_model pre l2i i2l = Inr m \<Longrightarrow> forward m = checkpoint_forward pre i2l"
  by (auto simp: build_lora_model_def Let_def get_peft_model_def get_base_model_def
      split: sum.splits)

lemma training_loop_trainer:
  assumes run: "training_loop pre (map snd cfgs) (initial_state d) = Inr st"
    and i: "i < length cfgs"
  shows "build_lora_model pre (label2id (snd (cfgs ! i))) (id2label (snd (cfgs ! i)))
           = Inr (trainer_model (st_trainers st ! i))
       \<and> train_dataset (st_trainers st ! i) = train_data (snd (cfgs ! i))
       \<and> eval_dataset (st_trainers st ! i) = test_data (snd (cfgs ! i))"
proof -
  from training_loop_runs [OF run, unfolded initial_state_simps] obtain new where
    n: "st_trainers st = [] @ new \<and> length new = length (map snd cfgs) \<and>
      (\<forall>i < length (map snd cfgs).
        build_lora_model pre (label2id (map snd cfgs ! i)) (id2label (map snd cfgs ! i))
          = Inr (trainer_model (new ! i))
      \<and> trainer_args (new ! i)
          = (training_arguments d)\<lparr>num_train_epochs := epochs (map snd cfgs ! i)\<rparr>
      \<and> train_dataset (new ! i) = train_data (map snd cfgs ! i)
      \<and> eval_dataset (new ! i) = test_data (map snd cfgs ! i))"
    by iprover
  have eq: "st_trainers st = new" using n by simp
  from i have "i < length (map snd cfgs)" by simp
  from n [THEN conjunct2, THEN conjunct2, rule_format, OF this] i
  show ?thesis by (simp add: eq)
qed

lemma evaluation_accuracy_fraction:
  fixes t :: "('enc, 'score::linorder, 'r) trainer"
  assumes ne: "records (test_data cfg) \<noteq> []"
    and rows: "\<forall>x \<in> set (records (test_data cfg)). forward (train t) (encode x) \<noteq> []"
  shows "\<exists>a. evaluation_accuracy train encode label_of t cfg = Inr a \<and> 0 \<le> a \<and> a \<le> 1
     \<and> a = of_nat (card {j. j < length (records (test_data cfg))
               \<and> argmax (forward (train t) (encode (records (test_data cfg) ! j)))
                   = Some (label_of (records (test_data cfg) ! j))})
           / of_nat (length (records (test_data cfg)))"
proof -
  let ?recs = "records (test_data cfg)"
  let ?e = "\<lparr>predictions = map (\<lambda>x. forward (train t) (encode x)) ?recs,
             label_ids = map label_of ?recs\<rparr>"
  have 1: "predictions ?e \<noteq> []" using ne by simp
  have 2: "length (label_ids ?e) = length (predictions ?e)" by simp
  have 3: "\<forall>row \<in> set (predictions ?e). row \<noteq> []" using rows by auto
  from compute_metrics_fraction [OF 1 2 3] obtain a where
    a: "compute_metrics ?e = Inr [(''accuracy'', a)]" "0 \<le> a" "a \<le> 1"
    "a = of_nat (card {i. i < length (predictions ?e)
                           \<and> argmax (predictions ?e ! i) = Some (label_ids ?e ! i)})
           / of_nat (length (predictions ?e))"
    by blast
  have "{i. i < length (predictions ?e) \<and> argmax (predictions ?e ! i) = Some (label_ids ?e ! i)}
      = {j. j < length ?recs
               \<and> argmax (forward (train t) (encode (?recs ! j))) = Some (label_of (?recs ! j))}"
    by auto
  with a(4) have frac: "a = of_nat (card {j. j < length ?recs
               \<and> argmax (forward (train t) (encode (?recs ! j))) = Some (label_of (?recs ! j))})
           / of_nat (length ?recs)"
    by simp
  have "trainer_evaluate train encode label_of t (test_data cfg) = Inr [(''eval_accuracy'', a)]"
    by (simp add: trainer_evaluate_def Let_def a(1))
  then have "evaluation_accuracy train encode label_of t cfg = Inr a"
    by (simp add: evaluation_accuracy_def)
  with a(2,3) frac show ?thesis by blast
qed

subsection \<open>Claim C7: the accuracy lies between 0 and 1\<close>

text \<open>
  C7: for every non-empty batch of evaluation predictions (one reference label per
  example, at least one score per example), \<open>compute_metrics\<close> returns an accuracy in
  \<open>[0, 1]\<close>: the number of examples whose argmax prediction equals the reference
  label, divided by the number of examples. And for every task of a completed training
  loop, the trainer's evaluation data is the task's held-out split, and the accuracy
  reported after evaluating the trained model on that split (non-empty, at least one
  logit per record) is returned without error, lies in \<open>[0, 1]\<close>, and is the fraction
  of the split's records whose argmax prediction equals their label.
\<close>

theorem compute_metrics_accuracy:
  fixes e :: "('s::linorder) eval_prediction"
    and train :: "('enc, 'score::linorder, 'r) trainer \<Rightarrow> ('enc, 'score) model"
    and cfgs :: "(string \<times> ('enc, 'score, 'r, 'ip) task) list"
  shows "(predictions e \<noteq> [] \<and> length (label_ids e) = length (predictions e)
          \<and> (\<forall>row \<in> set (predictions e). row \<noteq> []) \<longrightarrow>
          (\<exists>a. compute_metrics e = Inr [(''accuracy'', a)] \<and> 0 \<le> a \<and> a \<le> 1
             \<and> a = of_nat (card {i. i < length (predictions e)
                           \<and> argmax (predictions e ! i) = Some (label_ids e ! i)})
                   / of_nat (length (predictions e))))
       \<and> (training_loop pre (map snd cfgs) (initial_state d) = Inr st \<and> i < length cfgs
          \<and> records (test_data (snd (cfgs ! i))) \<noteq> []
          \<and> (\<forall>x \<in> set (records (test_data (snd (cfgs ! i)))).
                forward (train (st_trainers st ! i)) (encode x) \<noteq> []) \<longrightarrow>
          eval_dataset (st_trainers st ! i) = test_data (snd (cfgs ! i))
          \<and> (\<exists>a. evaluation_accuracy train encode label_of (st_trainers st ! i) (snd (cfgs ! i))
                   = Inr a
             \<and> 0 \<le> a \<and> a \<le> 1
             \<and> a = of_nat (card {j. j < length (records (test_data (snd (cfgs ! i))))
                     \<and> argmax (forward (train (st_trainers st ! i))
                                 (encode (records (test_data (snd (cfgs ! i))) ! j)))
                         = Some (label_of (records (test_data (snd (cfgs ! i))) ! j))})
                   / of_nat (length (records (test_data (snd (cfgs ! i)))))))"
proof (intro conjI impI)
  assume "predictions e \<noteq> [] \<and> length (label_ids e) = length (predictions e)
          \<and> (\<forall>row \<in> set (predictions e). row \<noteq> [])"
  then have 1: "predictions e \<noteq> []" and 2: "length (label_ids e) = length (predictions e)"
    and 3: "\<forall>row \<in> set (predictions e). row \<noteq> []" by simp_all
  show "\<exists>a. compute_metrics e = Inr [(''accuracy'', a)] \<and> 0 \<le> a \<and> a \<le> 1
             \<and> a = of_nat (card {i. i < length (predictions e)
                           \<and> argmax (predictions e ! i) = Some (label_ids e ! i)})
                   / of_nat (length (predictions e))"
    by (rule compute_metrics_fraction [OF 1 2 3])
next
  assume h: "training_loop pre (map snd cfgs) (initial_state d) = Inr st \<and> i < length cfgs
          \<and> records (test_data (snd (cfgs ! i))) \<noteq> []
          \<and> (\<forall>x \<in> set (records (test_data (snd (cfgs ! i)))).
                forward (train (st_trainers st ! i)) (encode x) \<noteq> [])"
  then have run: "training_loop pre (map snd cfgs) (initial_state d) = Inr st"
    and i: "i < length cfgs" by simp_all
  from training_loop_trainer [OF run i]
  show "eval_dataset (st_trainers st ! i) = test_data (snd (cfgs ! i))" by simp
next
  assume h: "training_loop pre (map snd cfgs) (initial_state d) = Inr st \<and> i < length cfgs
          \<and> records (test_data (snd (cfgs ! i))) \<noteq> []
          \<and> (\<forall>x \<in> set (records (test_data (snd (cfgs ! i)))).
                forward (train (st_trainers st ! i)) (encode x) \<noteq> [])"
  then have ne: "records (test_data (snd (cfgs ! i))) \<noteq> []"
    and rows: "\<forall>x \<in> set (records (test_data (snd (cfgs ! i)))).
                forward (train (st_trainers st ! i)) (encode x) \<noteq> []" by simp_all
  show "\<exists>a. evaluation_accuracy train encode label_of (st_trainers st ! i) (snd (cfgs ! i))
                   = Inr a
             \<and> 0 \<le> a \<and> a \<le> 1
             \<and> a = of_nat (card {j. j < length (records (test_data (snd (cfgs ! i))))
                     \<and> argmax (forward (train (st_trainers st ! i))
                                 (encode (records (test_data (snd (cfgs ! i))) ! j)))
                         = Some (label_of (records (test_data (snd (cfgs ! i))) ! j))})
                   / of_nat (length (records (test_data (snd (cfgs ! i)))))"
    by (rule evaluation_accuracy_fraction
          [where train = train and encode = encode and t = "st_trainers st ! i"
             and cfg = "snd (cfgs ! i)", OF ne rows])
qed

theorem compute_metrics_accuracy_witness:
  "\<exists>st. training_loop example_checkpoint (map snd example_config) (initial_state 3) = Inr st
     \<and> evaluation_accuracy trainer_model (\<lambda>x. x) (\<lambda>x. x mod 2)
           (st_trainers st ! 1) (snd (example_config ! 1)) = Inr (1 / 2)
     \<and> (0 :: rat) \<le> 1 / 2 \<and> (1 / 2 :: rat) \<le> 1
     \<and> compute_metrics \<lparr>predictions = [[1, 3], [2, 0], [0, 5 :: int]], label_ids = [1, 1, 1]\<rparr>
         = Inr [(''accuracy'', 2 / 3)]"
proof -
  from example_training_succeeds obtain st where
    st: "training_loop example_checkpoint (map snd example_config) (initial_state 3) = Inr st"
    by blast
  have i: "(1 :: nat) < length example_config"
    by (simp add: example_config_def config_def split: prod.splits)
  have td: "test_data (snd (example_config ! 1)) = example_dataset2"
    by (simp add: example_config_def config_def split: prod.splits)
  have fw: "forward (trainer_model (st_trainers st ! 1)) = (\<lambda>enc. [0, 1])"
    using training_loop_trainer [OF st i]
    by (auto dest!: build_lora_model_forward simp: example_checkpoint_def)
  have td': "test_data (snd (example_config ! Suc 0)) = example_dataset2"
    using td by simp
  have fw': "forward (trainer_model (st_trainers st ! Suc 0)) = (\<lambda>enc. [0, 1])"
    using fw by simp
  have ne: "records (test_data (snd (example_config ! 1))) \<noteq> []"
    by (simp add: td' example_dataset2_def)
  have rows: "\<forall>x \<in> set (records (test_data (snd (example_config ! 1)))).
      forward (trainer_model (st_trainers st ! 1)) ((\<lambda>x. x) x) \<noteq> []"
    by (simp add: fw')
  note t = compute_metrics_accuracy
    [where pre = example_checkpoint and cfgs = example_config and d = 3 and st = st
       and i = 1 and train = trainer_model and encode = "\<lambda>x. x" and label_of = "\<lambda>x. x mod 2"
       and e = "\<lparr>predictions = [[1, 3], [2, 0], [0, 5 :: int]], label_ids = [1, 1, 1]\<rparr>"]
  from t [THEN conjunct2] st i ne rows obtain a where
    a: "evaluation_accuracy trainer_model (\<lambda>x. x) (\<lambda>x. x mod 2)
           (st_trainers st ! 1) (snd (example_config ! 1)) = Inr a" "0 \<le> a" "a \<le> 1"
    by blast
  have v: "evaluation_accuracy trainer_model (\<lambda>x. x) (\<lambda>x. x mod 2)
           (st_trainers st ! 1) (snd (example_config ! 1)) = Inr (1 / 2)"
    by (simp add: evaluation_accuracy_def trainer_evaluate_def compute_metrics_def
        metric_compute_def argmax_def td' example_dataset2_def fw' Let_def)
  from a(1) v have "a = 1 / 2" by simp
  with a(2,3) have b: "(0 :: rat) \<le> 1 / 2" "(1 / 2 :: rat) \<le> 1" by simp_all
  have c: "compute_metrics \<lparr>predictions = [[1, 3], [2, 0], [0, 5 :: int]], label_ids = [1, 1, 1]\<rparr>
         = Inr [(''accuracy'', 2 / 3)]"
    by (simp add: compute_metrics_def metric_compute_def argmax_def)
  show ?thesis by (intro exI [of _ st] conjI st v b c)
qed

subsection \<open>Facts about the conversion to RGB\<close>

lemma pixel_values_of_converted:
  "list_all2 (\<lambda>im rg. convert im ''RGB'' = Inr rg) ims rgbs \<Longrightarrow>
     pixel_values_of convert pipe ims = Inr (map pipe rgbs)"
  by (induction ims rgbs rule: list_all2_induct) simp_all

lemma pixel_values_of_raises:
  "im \<in> set ims \<Longrightarrow> convert im ''RGB'' = Inl e \<Longrightarrow>
     \<exists>e'. pixel_values_of convert pipe ims = Inl e'"
proof (induction ims)
  case Nil
  then show ?case by simp
next
  case (Cons a ims)
  show ?case
  proof (cases "convert a ''RGB''")
    case (Inl e0)
    then show ?thesis by simp
  next
    case (Inr rgb)
    with Cons.prems have "im \<in> set ims" by auto
    from Cons.IH [OF this Cons.prems(2)] obtain e' where
      "pixel_values_of convert pipe ims = Inl e'" by blast
    with Inr show ?thesis by simp
  qed
qed

lemma predict_returns_label:
  fixes m :: "('enc, 'score::linorder) model"
  assumes conv: "convert img ''RGB'' = Inr rgb"
    and cfg: "config_id2label (model_config m) = snd (create_label_mappings ds)"
    and head: "length (forward m (ip rgb)) = length (features_label_names ds)"
    and nonempty: "features_label_names ds \<noteq> []"
  shows "\<exists>lbl. predict convert img m ip = Inr lbl"
proof -
  from head nonempty have "forward m (ip rgb) \<noteq> []" by auto
  from argmax_Some [OF this] obtain k where k: "argmax (forward m (ip rgb)) = Some k"
      "k < length (forward m (ip rgb))"
    by blast
  from k(2) head have "k < length (features_label_names ds)" by simp
  then have "config_id2label (model_config m) k = Some (features_label_names ds ! k)"
    by (simp add: cfg create_label_mappings_id2label)
  then have "predict convert img m ip = Inr (features_label_names ds ! k)"
    by (simp add: predict_def conv k(1))
  then show ?thesis by blast
qed

subsection \<open>Claim C10: both entry points convert the image to RGB first\<close>

text \<open>
  C10, as stated: both entry points accept images of any mode and handle non-RGB inputs
  without error. \<open>predict\<close> and \<open>preprocess\<close> call the conversion and do not catch what
  it raises: for an image of a mode the imaging library refuses to convert to RGB (the
  mode \<^verbatim>\<open>La\<close>), both raise the library's error.
\<close>

theorem predict_mode_La_counterexample:
  "predict example_convert (''La'', 5) example_model snd = Inl ValueError
   \<and> preprocess example_convert snd
         \<lparr>batch_image = [(''La'', 5)], pixel_values = None\<rparr> = Inl ValueError"
  by (simp add: predict_def preprocess_def example_convert_def)

text \<open>
  C10, amended: \<open>predict\<close> and \<open>preprocess\<close> each convert the input image to RGB
  before encoding, and accept every image that the imaging library converts to RGB.
  For such an image, \<open>predict\<close> on the image equals the rest of \<open>predict\<close> run on the
  converted image, and equals \<open>predict\<close> on the converted image (which a second
  conversion leaves as it is); with the model's head sized by the task's \<open>id2label\<close> it
  returns a label and no error. \<open>preprocess\<close> of a batch of such images returns the
  pipeline applied to the converted images, the same as for the batch of converted
  images. When the library refuses the conversion, \<open>predict\<close> raises that error and
  \<open>preprocess\<close> raises as well.
\<close>

theorem predict_converts_to_rgb:
  fixes m :: "('enc, 'score::linorder) model"
  shows "(convert img ''RGB'' = Inr rgb \<longrightarrow>
            predict convert img m ip = predict (\<lambda>x mode. Inr x) rgb m ip)
       \<and> (convert img ''RGB'' = Inr rgb \<and> convert rgb ''RGB'' = Inr rgb \<longrightarrow>
            predict convert img m ip = predict convert rgb m ip)
       \<and> (convert img ''RGB'' = Inr rgb
          \<and> config_id2label (model_config m) = snd (create_label_mappings ds)
          \<and> length (forward m (ip rgb)) = length (features_label_names ds)
          \<and> features_label_names ds \<noteq> [] \<longrightarrow>
            (\<exists>lbl. predict convert img m ip = Inr lbl))
       \<and> (convert img ''RGB'' = Inl e \<longrightarrow> predict convert img m ip = Inl e)
       \<and> (list_all2 (\<lambda>im rg. convert im ''RGB'' = Inr rg) (batch_image b) rgbs \<longrightarrow>
            preprocess convert pipe b = Inr (b\<lparr>pixel_values := Some (map pipe rgbs)\<rparr>))
       \<and> (list_all2 (\<lambda>im rg. convert im ''RGB'' = Inr rg \<and> convert rg ''RGB'' = Inr rg)
            (batch_image b) rgbs \<longrightarrow>
            preprocess convert pipe (b\<lparr>batch_image := rgbs\<rparr>)
              = Inr (b\<lparr>batch_image := rgbs, pixel_values := Some (map pipe rgbs)\<rparr>))
       \<and> (im \<in> set (batch_image b) \<and> convert im ''RGB'' = Inl e2 \<longrightarrow>
            (\<exists>e'. preprocess convert pipe b = Inl e'))"
proof (intro conjI impI)
  assume "convert img ''RGB'' = Inr rgb"
  then show "predict convert img m ip = predict (\<lambda>x mode. Inr x) rgb m ip"
    by (simp add: predict_def)
next
  assume "convert img ''RGB'' = Inr rgb \<and> convert rgb ''RGB'' = Inr rgb"
  then show "predict convert img m ip = predict convert rgb m ip"
    by (simp add: predict_def)
next
  assume h: "convert img ''RGB'' = Inr rgb
          \<and> config_id2label (model_config m) = snd (create_label_mappings ds)
          \<and> length (forward m (ip rgb)) = length (features_label_names ds)
          \<and> features_label_names ds \<noteq> []"
  then have 1: "convert img ''RGB'' = Inr rgb"
    and 2: "config_id2label (model_config m) = snd (create_label_mappings ds)"
    and 3: "length (forward m (ip rgb)) = length (features_label_names ds)"
    and 4: "features_label_names ds \<noteq> []" by simp_all
  show "\<exists>lbl. predict convert img m ip = Inr lbl"
    by (rule predict_returns_label
          [where convert = convert and img = img and rgb = rgb and ip = ip, OF 1 2 3 4])
next
  assume "convert img ''RGB'' = Inl e"
  then show "predict convert img m ip = Inl e"
    by (simp add: predict_def)
next
  assume l1: "list_all2 (\<lambda>im rg. convert im ''RGB'' = Inr rg) (batch_image b) rgbs"
  show "preprocess convert pipe b = Inr (b\<lparr>pixel_values := Some (map pipe rgbs)\<rparr>)"
    by (simp add: preprocess_def pixel_values_of_converted [where convert = convert, OF l1])
next
  assume bs: "list_all2 (\<lambda>im rg. convert im ''RGB'' = Inr rg \<and> convert rg ''RGB'' = Inr rg)
            (batch_image b) rgbs"
  have l2: "list_all2 (\<lambda>im rg. convert im ''RGB'' = Inr rg) rgbs rgbs"
    using bs by (induction rule: list_all2_induct) simp_all
  show "preprocess convert pipe (b\<lparr>batch_image := rgbs\<rparr>)
              = Inr (b\<lparr>batch_image := rgbs, pixel_values := Some (map pipe rgbs)\<rparr>)"
    by (simp add: preprocess_def pixel_values_of_converted [where convert = convert, OF l2])
next
  assume "im \<in> set (batch_image b) \<and> convert im ''RGB'' = Inl e2"
  then have "im \<in> set (batch_image b)" and "convert im ''RGB'' = Inl e2" by simp_all
  from pixel_values_of_raises [where convert = convert, OF this] obtain e' where
    "pixel_values_of convert pipe (batch_image b) = Inl e'" by blast
  then show "\<exists>e'. preprocess convert pipe b = Inl e'"
    by (simp add: preprocess_def)
qed

theorem predict_converts_to_rgb_witness:
  "example_convert (''L'', 5) ''RGB'' = Inr (''RGB'', 5)
   \<and> example_convert (''RGB'', 5) ''RGB'' = Inr (''RGB'', 5)
   \<and> predict example_convert (''L'', 5) example_model snd = Inr ''dog''
   \<and> predict example_convert (''RGB'', 5) example_model snd = Inr ''dog''
   \<and> preprocess example_convert snd
         \<lparr>batch_image = [(''L'', 5), (''RGBA'', 6)], pixel_values = None\<rparr>
       = Inr \<lparr>batch_image = [(''L'', 5), (''RGBA'', 6)], pixel_values = Some [5, 6]\<rparr>"
proof -
  have c1: "example_convert (''L'', 5) ''RGB'' = Inr (''RGB'', 5)"
    and c2: "example_convert (''RGB'', 5) ''RGB'' = Inr (''RGB'', 5)"
    by (simp_all add: example_convert_def)
  have bs: "list_all2 (\<lambda>im rg. example_convert im ''RGB'' = Inr rg)
       (batch_image \<lparr>batch_image = [(''L'', 5), (''RGBA'', 6)], pixel_values = None :: nat list option\<rparr>)
       [(''RGB'', 5), (''RGB'', 6)]"
    by (simp add: example_convert_def)
  note t = predict_converts_to_rgb
    [where convert = example_convert and img = "(''L'', 5)" and rgb = "(''RGB'', 5)"
       and b = "\<lparr>batch_image = [(''L'', 5), (''RGBA'', 6)], pixel_values = None\<rparr>"
       and rgbs = "[(''RGB'', 5), (''RGB'', 6)]" and m = example_model and ip = snd
       and pipe = snd]
  have p: "predict example_convert (''L'', 5) example_model snd
        = predict example_convert (''RGB'', 5) example_model snd"
    using t [THEN conjunct2, THEN conjunct1] c1 c2 by simp
  have q: "preprocess example_convert snd
         \<lparr>batch_image = [(''L'', 5), (''RGBA'', 6)], pixel_values = None\<rparr>
       = Inr \<lparr>batch_image = [(''L'', 5), (''RGBA'', 6)], pixel_values = Some [5, 6]\<rparr>"
    using t [THEN conjunct2, THEN conjunct2, THEN conjunct2, THEN conjunct2, THEN conjunct1] bs
    by simp
  have d: "predict example_convert (''RGB'', 5) example_model snd = Inr ''dog''"
    by (simp add: predict_def example_convert_def example_model_def get_base_model_def
        example_checkpoint_def argmax_def create_label_mappings_def label_step_def
        example_dataset2_def)
  show ?thesis by (intro conjI c1 c2 d q) (simp only: p d)
qed

end
